theory Spec2Isabelle
  imports Main "HOL-Library.Sublist"
begin

section \<open>Python strings\<close>

text \<open>
  A Python \<open>str\<close> is modelled as a \<open>string\<close> in which every \<open>char\<close> stands for one code
  point below 256, so that \<open>length\<close> is Python's \<open>len\<close> and \<open>take n\<close> is the slice
  \<open>[:n]\<close>. On these code points \<open>str.lower\<close>, \<open>str.isspace\<close> and the \<open>\s\<close> and
  \<open>IGNORECASE\<close> of the \<open>re\<close> module are the functions written out below.
\<close>

definition nl :: char where
  "nl = CHR 0x0A"

definition py_isspace :: "char \<Rightarrow> bool" where
  "py_isspace c \<longleftrightarrow>
     (let n = (of_char c :: nat)
      in (9 \<le> n \<and> n \<le> 13) \<or> (28 \<le> n \<and> n \<le> 32) \<or> n = 133 \<or> n = 160)"

definition py_lower_char :: "char \<Rightarrow> char" where
  "py_lower_char c =
     (let n = (of_char c :: nat)
      in if (65 \<le> n \<and> n \<le> 90) \<or> (192 \<le> n \<and> n \<le> 214) \<or> (216 \<le> n \<and> n \<le> 222)
         then char_of (n + 32) else c)"

definition py_upper_char :: "char \<Rightarrow> char" where
  "py_upper_char c =
     (let n = (of_char c :: nat)
      in if 97 \<le> n \<and> n \<le> 122 then char_of (n - 32) else c)"

definition lower :: "string \<Rightarrow> string" where
  "lower s = map py_lower_char s"

definition strip :: "string \<Rightarrow> string" where
  "strip s = rev (dropWhile py_isspace (rev (dropWhile py_isspace s)))"

text \<open>\<open>sep.join(xs)\<close>.\<close>

fun join :: "string \<Rightarrow> string list \<Rightarrow> string" where
  "join sep [] = []"
| "join sep [x] = x"
| "join sep (x # y # ys) = x @ sep @ join sep (y # ys)"

text \<open>\<open>needle in haystack\<close> on strings.\<close>

fun contains :: "string \<Rightarrow> string \<Rightarrow> bool" where
  "contains needle [] = (needle = [])"
| "contains needle (c # cs) = (prefix needle (c # cs) \<or> contains needle cs)"

text \<open>\<open>s.split("\n\n")\<close>: the pieces between non-overlapping blank-line separators, read
  from the left.\<close>

fun split_blank :: "string \<Rightarrow> string \<Rightarrow> string list" where
  "split_blank acc [] = [rev acc]"
| "split_blank acc [c] = [rev (c # acc)]"
| "split_blank acc (c # d # cs) =
     (if c = nl \<and> d = nl then rev acc # split_blank [] cs
      else split_blank (c # acc) (d # cs))"

text \<open>\<open>s.replace(old, new)\<close> for a one-character \<open>old\<close>.\<close>

definition replace_char :: "char \<Rightarrow> string \<Rightarrow> string \<Rightarrow> string" where
  "replace_char old new s = concat (map (\<lambda>c. if c = old then new else [c]) s)"

text \<open>\<open>str(n)\<close> for a non-negative integer.\<close>

definition digit :: "nat \<Rightarrow> char" where
  "digit d = char_of (48 + d)"

fun show_nat :: "nat \<Rightarrow> string" where
  "show_nat n = (if n < 10 then [digit n] else show_nat (n div 10) @ [digit (n mod 10)])"

declare show_nat.simps [simp del]

section \<open>The regular expressions of the extractor\<close>

text \<open>
  The patterns are compiled with \<open>re.IGNORECASE | re.DOTALL\<close>: a literal matches without
  regard to case, \<open>.\<close> matches every character, the newline included, and \<open>$\<close> matches at
  the end of the text or just before a newline that ends it. The matcher returns every way
  a pattern can match a prefix of the text, in the order in which a backtracking engine tries
  them (a greedy repetition longest first, a lazy one shortest first, the left alternative
  first); the match that \<open>re\<close> reports is the first of them.
\<close>

datatype cclass = Dot | Space

fun in_class :: "cclass \<Rightarrow> char \<Rightarrow> bool" where
  "in_class Dot c = True"
| "in_class Space c = py_isspace c"

datatype regex =
    Chars string
  | One cclass
  | Star cclass
  | LazyStar cclass
  | Opt regex
  | Alt regex regex
  | Seq regex regex
  | Grp nat regex
  | Dollar

type_synonym groups = "(nat \<times> string) list"

text \<open>\<open>match.group(n)\<close>; every group of the patterns below takes part in every match.\<close>

definition group :: "groups \<Rightarrow> nat \<Rightarrow> string" where
  "group m n = (case map_of m n of Some t \<Rightarrow> t | None \<Rightarrow> [])"

fun ci_prefix :: "string \<Rightarrow> string \<Rightarrow> bool" where
  "ci_prefix [] s = True"
| "ci_prefix (p # ps) [] = False"
| "ci_prefix (p # ps) (c # cs) = (py_lower_char c = py_lower_char p \<and> ci_prefix ps cs)"

fun greedy_star :: "cclass \<Rightarrow> string \<Rightarrow> string list" where
  "greedy_star cl [] = [[]]"
| "greedy_star cl (c # cs) = (if in_class cl c then greedy_star cl cs else []) @ [c # cs]"

fun lazy_star :: "cclass \<Rightarrow> string \<Rightarrow> string list" where
  "lazy_star cl [] = [[]]"
| "lazy_star cl (c # cs) = (c # cs) # (if in_class cl c then lazy_star cl cs else [])"

text \<open>\<open>rmatch r (s, g)\<close>: the rests of \<open>s\<close> after each match of \<open>r\<close> at its start, with the
  captured groups.\<close>

fun rmatch :: "regex \<Rightarrow> string \<times> groups \<Rightarrow> (string \<times> groups) list" where
  "rmatch (Chars p) (s, g) = (if ci_prefix p s then [(drop (length p) s, g)] else [])"
| "rmatch (One cl) (s, g) =
     (case s of [] \<Rightarrow> [] | c # cs \<Rightarrow> if in_class cl c then [(cs, g)] else [])"
| "rmatch (Star cl) (s, g) = map (\<lambda>s'. (s', g)) (greedy_star cl s)"
| "rmatch (LazyStar cl) (s, g) = map (\<lambda>s'. (s', g)) (lazy_star cl s)"
| "rmatch (Opt r) (s, g) = rmatch r (s, g) @ [(s, g)]"
| "rmatch (Alt a b) (s, g) = rmatch a (s, g) @ rmatch b (s, g)"
| "rmatch (Seq a b) (s, g) = concat (map (rmatch b) (rmatch a (s, g)))"
| "rmatch (Grp n r) (s, g) =
     map (\<lambda>(s', g'). (s', (n, take (length s - length s') s) # g')) (rmatch r (s, g))"
| "rmatch Dollar (s, g) = (if s = [] \<or> s = [nl] then [(s, g)] else [])"

text \<open>\<open>pattern.match\<close> at the start of \<open>s\<close>: the length of the match and its groups.\<close>

definition match_at :: "regex \<Rightarrow> string \<Rightarrow> (nat \<times> groups) option" where
  "match_at r s =
     (case rmatch r (s, []) of
        [] \<Rightarrow> None
      | (s', g) # _ \<Rightarrow> Some (length s - length s', g))"

text \<open>
  \<open>finditer\<close>: the groups of the non-overlapping matches, leftmost first. The search for the
  next match starts where the last one ended. Every pattern of this program starts with a
  literal word, so no match is empty; the patterns have no look-behind, so matching on the
  rest of the text is matching at that position of the whole text.
\<close>

function finditer :: "regex \<Rightarrow> string \<Rightarrow> groups list" where
  "finditer r s =
     (case match_at r s of
        Some (n, g) \<Rightarrow> g # (if s = [] then [] else finditer r (drop (max n 1) s))
      | None \<Rightarrow> (case s of [] \<Rightarrow> [] | c # cs \<Rightarrow> finditer r cs))"
  by pat_completeness auto
termination
  by (relation "measure (\<lambda>(r, s). length s)") auto

declare finditer.simps [simp del]

fun seqs :: "regex list \<Rightarrow> regex" where
  "seqs [] = Chars []"
| "seqs [r] = r"
| "seqs (r # rs) = Seq r (seqs rs)"

text \<open>\<open>\s+\<close>, \<open>(?:\n|$)\<close> and \<open>(?:\n\n|$)\<close>.\<close>

definition spaces1 :: regex where
  "spaces1 = Seq (One Space) (Star Space)"

definition eol :: regex where
  "eol = Alt (Chars [nl]) Dollar"

definition eop :: regex where
  "eop = Alt (Chars [nl, nl]) Dollar"

text \<open>\<open>given\s+(.*?)(?:\n|$).*?when\s+(.*?)(?:\n|$).*?then\s+(.*?)(?:\n|$)\<close>\<close>

definition gwt_pattern :: regex where
  "gwt_pattern = seqs
     [Chars ''given'', spaces1, Grp 1 (LazyStar Dot), eol, LazyStar Dot,
      Chars ''when'', spaces1, Grp 2 (LazyStar Dot), eol, LazyStar Dot,
      Chars ''then'', spaces1, Grp 3 (LazyStar Dot), eol]"

text \<open>The seven patterns of \<open>test_keywords\<close>, in the order of the source.\<close>

definition test_keywords :: "regex list" where
  "test_keywords =
     [seqs [Chars ''test'', spaces1, Chars ''case'', Opt (Chars ''s''), Opt (Chars '':''),
            Star Space, Grp 1 (LazyStar Dot), eop],
      seqs [Chars ''scenario'', Opt (Chars ''s''), Opt (Chars '':''),
            Star Space, Grp 1 (LazyStar Dot), eop],
      seqs [Chars ''edge'', spaces1, Chars ''case'', Opt (Chars ''s''), Opt (Chars '':''),
            Star Space, Grp 1 (LazyStar Dot), eop],
      seqs [Chars ''acceptance'', spaces1, Chars ''criteria'', Opt (Chars '':''),
            Star Space, Grp 1 (LazyStar Dot), eop],
      seqs [Chars ''should'', spaces1, Grp 1 (LazyStar Dot), eol],
      seqs [Chars ''verify'', spaces1, Grp 1 (LazyStar Dot), eol],
      seqs [Chars ''ensure'', spaces1, Grp 1 (LazyStar Dot), eol]]"

section \<open>Requirement extraction\<close>

record test_scenario =
  scenario :: string
  given :: "string list"
  when' :: "string list"
  then' :: "string list"

text \<open>The body of the loop over the matches of the Given-When-Then pattern.\<close>

definition gwt_scenario :: "string \<Rightarrow> groups \<Rightarrow> test_scenario" where
  "gwt_scenario summary m =
     \<lparr>scenario = ''Scenario: '' @ summary,
      given = [strip (group m 1)],
      when' = [strip (group m 2)],
      then' = [strip (group m 3)]\<rparr>"

text \<open>The body of the loop over the matches of one discussion pattern: a match whose
  stripped text has more than 10 characters adds a scenario.\<close>

definition discussion_scenario :: "groups \<Rightarrow> test_scenario list" where
  "discussion_scenario m =
     (let scenario_text = strip (group m 1)
      in if scenario_text \<noteq> [] \<and> length scenario_text > 10
         then [\<lparr>scenario = ''Scenario from discussion: '' @ take 100 scenario_text,
                given = [''User is on the application''],
                when' = [''User performs: '' @ take 150 scenario_text],
                then' = [''Expected behavior should match the discussion requirement'']\<rparr>]
         else [])"

definition extract_scenarios_from_discussions :: "string \<Rightarrow> string \<Rightarrow> test_scenario list" where
  "extract_scenarios_from_discussions discussion_summary summary =
     concat (map (\<lambda>pattern. concat (map discussion_scenario (finditer pattern discussion_summary)))
                 test_keywords)"

definition fallback_scenario :: "string \<Rightarrow> test_scenario" where
  "fallback_scenario summary =
     \<lparr>scenario = ''Test '' @ summary,
      given = [''User is on the application''],
      when' = [''User performs the action described in ticket''],
      then' = [''Expected behavior occurs as per ticket description'']\<rparr>"

definition extract_test_scenarios :: "string \<Rightarrow> string \<Rightarrow> string \<Rightarrow> test_scenario list" where
  "extract_test_scenarios description summary discussion_summary =
     (let combined_text = description @ [nl, nl] @ discussion_summary;
          scenarios = map (gwt_scenario summary) (finditer gwt_pattern combined_text);
          scenarios = (if discussion_summary \<noteq> []
                       then scenarios @ extract_scenarios_from_discussions discussion_summary summary
                       else scenarios)
      in if scenarios = [] then [fallback_scenario summary] else scenarios)"

datatype complexity = Low | Medium | High

text \<open>
  \<open>_calculate_complexity\<close> takes \<open>len\<close> of its two arguments. The description is any value
  that has a length: a text, or an object, whose length is the number of its keys (it is then
  given as the list of the keys).
\<close>

definition calculate_complexity :: "test_scenario list \<Rightarrow> 'a list \<Rightarrow> complexity" where
  "calculate_complexity scenarios description =
     (let scenario_count = length scenarios;
          desc_length = length description
      in if scenario_count \<le> 2 \<and> desc_length < 500 then Low
         else if scenario_count \<le> 5 \<and> desc_length < 1500 then Medium
         else High)"

text \<open>The order \<open>low < medium < high\<close> of the levels.\<close>

fun level :: "complexity \<Rightarrow> nat" where
  "level Low = 0"
| "level Medium = 1"
| "level High = 2"

section \<open>The ticket client\<close>

text \<open>
  A comment of the tracker: the display name of its author (absent when the comment has no
  author or the author no display name) and its body, which is plain text or a document in
  the Atlassian Document Format. A node of such a document is a dictionary that may hold a
  \<open>text\<close> and a list of children under \<open>content\<close>; a child that is not a dictionary
  contributes nothing.
\<close>

datatype adf = Node "string option" "adf list" | NotADict

datatype comment_body = Plain string | Document adf

record comment =
  author_displayName :: "string option"
  body :: comment_body

text \<open>
  The description of a ticket as the tracker sends it: JSON \<open>null\<close> for a ticket that has
  none, a text, or an object (a document in the Atlassian Document Format). Of an object the
  program reads its keys (\<open>len\<close> counts them, and an object without keys counts as false)
  and the text that \<open>str\<close> gives for it.
\<close>

datatype description_value = Null | Text string | Object "string list" string

text \<open>
  A ticket as the tracker returns it, a dictionary: \<open>key\<close> is always there; \<open>description\<close>
  and \<open>summary\<close> of \<open>fields\<close>, \<open>discussions\<close> and \<open>discussion_summary\<close> are read with
  \<open>get\<close> and a default, so each may be absent (\<open>None\<close> here is the absent key).
\<close>

record ticket =
  key :: string
  fields_description :: "description_value option"
  fields_summary :: "string option"
  discussions :: "comment list option"
  ticket_discussion_summary :: "string option"

datatype error = ValueError string | TypeError string | AttributeError string

text \<open>
  The tracker is the environment: \<open>fetch_ticket\<close> and \<open>get_ticket_comments\<close> perform one HTTP
  request each and either return the decoded answer or raise \<open>ValueError\<close>. The model
  takes their outcome for each ticket id as given.
\<close>

record jira =
  fetch_ticket :: "string \<Rightarrow> error + ticket"
  get_ticket_comments :: "string \<Rightarrow> error + comment list"

fun text_parts :: "adf \<Rightarrow> string list" where
  "text_parts (Node t content) =
     (case t of Some x \<Rightarrow> [x] | None \<Rightarrow> []) @ concat (map text_parts content)"
| "text_parts NotADict = []"

definition extract_text_from_adf :: "adf \<Rightarrow> string" where
  "extract_text_from_adf adf_content = join '' '' (text_parts adf_content)"

definition discussion_point :: "comment \<Rightarrow> string list" where
  "discussion_point c =
     (let author = (case author_displayName c of Some a \<Rightarrow> a | None \<Rightarrow> ''Unknown'');
          txt = (case body c of Document d \<Rightarrow> extract_text_from_adf d | Plain s \<Rightarrow> s)
      in if strip txt \<noteq> [] then [author @ '': '' @ strip txt] else [])"

definition summarize_discussions :: "comment list \<Rightarrow> string" where
  "summarize_discussions comments =
     (if comments = [] then []
      else join [nl, nl] (concat (map discussion_point comments)))"

text \<open>
  \<open>get_ticket_with_discussions\<close>: an error of the ticket fetch propagates; an error of the
  comment fetch is caught and replaced by an empty discussion.
\<close>

definition get_ticket_with_discussions :: "jira \<Rightarrow> string \<Rightarrow> error + ticket" where
  "get_ticket_with_discussions j ticket_id =
     (case fetch_ticket j ticket_id of
        Inl e \<Rightarrow> Inl e
      | Inr t \<Rightarrow>
          (case get_ticket_comments j ticket_id of
             Inr comments \<Rightarrow>
               Inr (t\<lparr>discussions := Some comments,
                      ticket_discussion_summary := Some (summarize_discussions comments)\<rparr>)
           | Inl e \<Rightarrow>
               Inr (t\<lparr>discussions := Some [], ticket_discussion_summary := Some []\<rparr>)))"

section \<open>Analysis\<close>

record analysis =
  analysis_ticket_key :: string
  analysis_summary :: string
  analysis_discussion_summary :: string
  analysis_test_scenarios :: "test_scenario list"
  estimated_test_count :: nat
  analysis_complexity :: complexity

definition get_default :: "'a option \<Rightarrow> 'a \<Rightarrow> 'a" where
  "get_default v d = (case v of Some x \<Rightarrow> x | None \<Rightarrow> d)"

text \<open>\<open>f"{description}"\<close>: the text that formatting gives for a description.\<close>

fun format_value :: "description_value \<Rightarrow> string" where
  "format_value Null = ''None''"
| "format_value (Text d) = d"
| "format_value (Object keys r) = r"

text \<open>\<open>not description\<close>\<close>

fun falsy :: "description_value \<Rightarrow> bool" where
  "falsy Null = True"
| "falsy (Text d) = (d = [])"
| "falsy (Object keys r) = (keys = [])"

text \<open>
  \<open>analyze_requirements\<close>. The description enters \<open>_extract_test_scenarios\<close> only through
  \<open>f"{description}"\<close>, so the extraction is given that text. \<open>_calculate_complexity\<close> then
  takes \<open>len(description)\<close>, which raises \<open>TypeError\<close> for \<open>None\<close>.
\<close>

definition analyze_requirements :: "ticket \<Rightarrow> error + analysis" where
  "analyze_requirements t =
     (let description = get_default (fields_description t) (Text []);
          summary = get_default (fields_summary t) [];
          discussion_summary = get_default (ticket_discussion_summary t) [];
          scenarios = extract_test_scenarios (format_value description) summary discussion_summary
      in case (case description of
                 Null \<Rightarrow> Inl (TypeError ''object of type 'NoneType' has no len()'')
               | Text d \<Rightarrow> Inr (calculate_complexity scenarios d)
               | Object keys r \<Rightarrow> Inr (calculate_complexity scenarios keys)) of
           Inl err \<Rightarrow> Inl err
         | Inr complexity \<Rightarrow>
             Inr \<lparr>analysis_ticket_key = key t,
                  analysis_summary = summary,
                  analysis_discussion_summary = discussion_summary,
                  analysis_test_scenarios = scenarios,
                  estimated_test_count = length scenarios,
                  analysis_complexity = complexity\<rparr>)"

section \<open>The file system\<close>

text \<open>
  A path is the list of the names that the source joins with \<open>/\<close>: \<open>Path(a) / b / c\<close> is
  \<open>[a, b, c]\<close>. The file system holds the directories and the text of each file.
  \<open>mkdir(parents=True, exist_ok=True)\<close> adds the directory and the directories above it;
  \<open>write_text\<close> creates the file or replaces its text. Both are taken to succeed.
\<close>

type_synonym path = "string list"

record filesystem =
  dirs :: "path set"
  files :: "path \<rightharpoonup> string"

definition mkdir_parents :: "path \<Rightarrow> filesystem \<Rightarrow> filesystem" where
  "mkdir_parents p fs = fs\<lparr>dirs := dirs fs \<union> set (tl (prefixes p))\<rparr>"

definition write_text :: "path \<times> string \<Rightarrow> filesystem \<Rightarrow> filesystem" where
  "write_text w fs = fs\<lparr>files := (files fs)(fst w \<mapsto> snd w)\<rparr>"

text \<open>The writes of a run, applied in their order.\<close>

definition write_all :: "(path \<times> string) list \<Rightarrow> filesystem \<Rightarrow> filesystem" where
  "write_all ws fs = fold write_text ws fs"

section \<open>The feature file\<close>

text \<open>Every line of a template ends with a newline: \<open>lines_nl\<close>.\<close>

definition lines_nl :: "string list \<Rightarrow> string" where
  "lines_nl ls = concat (map (\<lambda>l. l @ [nl]) ls)"

definition discussion_comment_line :: "string \<Rightarrow> string list" where
  "discussion_comment_line disc_line =
     (if strip disc_line \<noteq> [] then [''  # '' @ take 100 (strip disc_line)] else [])"

definition scenario_block :: "test_scenario \<Rightarrow> string list" where
  "scenario_block sc =
     [''  Scenario: '' @ scenario sc]
     @ map (\<lambda>step. ''    Given '' @ step) (given sc)
     @ map (\<lambda>step. ''    When '' @ step) (when' sc)
     @ map (\<lambda>step. ''    Then '' @ step) (then' sc)"

text \<open>The blocks of the scenarios, with an empty line after each but the last.\<close>

fun scenario_blocks :: "test_scenario list \<Rightarrow> string list" where
  "scenario_blocks [] = []"
| "scenario_blocks [sc] = scenario_block sc"
| "scenario_blocks (sc # sc' # scs) = scenario_block sc @ [[]] @ scenario_blocks (sc' # scs)"

definition generate_feature_file :: "analysis \<Rightarrow> string" where
  "generate_feature_file a =
     join [nl]
       ([''Feature: '' @ analysis_summary a,
         ''  As a tester'',
         ''  I want to test '' @ analysis_ticket_key a,
         ''  So that the functionality works as expected'',
         []]
        @ (if analysis_discussion_summary a \<noteq> []
           then [''  # Additional context from discussions:'']
                @ concat (map discussion_comment_line
                    (take 3 (split_blank [] (analysis_discussion_summary a))))
                @ [[]]
           else [])
        @ scenario_blocks (analysis_test_scenarios a))"

section \<open>Results of the operations\<close>

datatype response =
    Generated "path list" string
  | Failure string
  | Feature path string
  | Plans "path list" string nat

fun success :: "response \<Rightarrow> bool" where
  "success (Failure m) = False"
| "success r = True"

text \<open>
  \<open>generate_gherkin_features\<close>: an error of the analysis propagates before anything is
  written; the feature file is written only under a non-empty \<open>output_path\<close>, and without
  one the result names the bare file \<open>{ticket_key}.feature\<close>.
\<close>

definition generate_gherkin_features ::
  "ticket \<Rightarrow> string option \<Rightarrow> filesystem \<Rightarrow> (error + response) \<times> filesystem" where
  "generate_gherkin_features t output_path fs =
     (case analyze_requirements t of
        Inl err \<Rightarrow> (Inl err, fs)
      | Inr a \<Rightarrow>
          (let feature_content = generate_feature_file a;
               ticket_key = key t;
               unwritten = (Inr (Feature [ticket_key @ ''.feature''] feature_content), fs)
           in case output_path of
                None \<Rightarrow> unwritten
              | Some p \<Rightarrow>
                  if p = [] then unwritten
                  else (let feature_path = [p, ticket_key @ ''.feature'']
                        in (Inr (Feature feature_path feature_content),
                            write_text (feature_path, feature_content)
                              (mkdir_parents (butlast feature_path) fs)))))"

section \<open>Manual test plans\<close>

text \<open>
  What a run reads from its process: the default output directory (\<open>self.output_dir\<close>), the
  date that \<open>datetime.now()\<close> returns, and the order in which a \<open>set\<close> of strings built
  from a list is iterated, which depends on the string hashes of the process. The calls of
  one run are taken to read the same date.
\<close>

datatype month = January | February | March | April | May | June | July | August
  | September | October | November | December

record date =
  year :: nat
  month :: month
  day :: nat

record env =
  env_output_dir :: string
  env_now :: date
  env_set_order :: "string list \<Rightarrow> string list"

text \<open>An iteration order of sets: every element of the list once, nothing else.\<close>

definition set_order_ok :: "(string list \<Rightarrow> string list) \<Rightarrow> bool" where
  "set_order_ok ord \<longleftrightarrow> (\<forall>xs. distinct (ord xs) \<and> set (ord xs) = set xs)"

fun month_name :: "month \<Rightarrow> string" where
  "month_name January = ''January''"
| "month_name February = ''February''"
| "month_name March = ''March''"
| "month_name April = ''April''"
| "month_name May = ''May''"
| "month_name June = ''June''"
| "month_name July = ''July''"
| "month_name August = ''August''"
| "month_name September = ''September''"
| "month_name October = ''October''"
| "month_name November = ''November''"
| "month_name December = ''December''"

text \<open>\<open>datetime.now().strftime("%B %d, %Y")\<close>: the month by name, the day on two digits, the
  year.\<close>

definition get_current_date :: "env \<Rightarrow> string" where
  "get_current_date e =
     (let d = env_now e
      in month_name (month d) @ '' ''
         @ (if day d < 10 then ''0'' else []) @ show_nat (day d)
         @ '', '' @ show_nat (year d))"

text \<open>
  The line character \<open>U+2500\<close> of the step blocks lies outside the code points of \<open>char\<close>; it
  is written as the three bytes that \<open>write_text(encoding="utf-8")\<close> stores for it. No
  length is taken of a text that holds it.
\<close>

definition rule :: "nat \<Rightarrow> string" where
  "rule n = concat (replicate n [CHR 0xE2, CHR 0x94, CHR 0x80])"

text \<open>\<open>upper\<close> is applied to the fixed names of the test types only, which are ASCII.\<close>

definition upper :: "string \<Rightarrow> string" where
  "upper s = map py_upper_char s"

definition expand_action_step :: "string \<Rightarrow> string" where
  "expand_action_step a =
     (if length a < 50 then a @ '' (Provide detailed steps as applicable)'' else a)"

fun replace_crlf :: "string \<Rightarrow> string" where
  "replace_crlf [] = []"
| "replace_crlf [c] = [c]"
| "replace_crlf (c # d # cs) =
     (if c = CHR 0x0D \<and> d = nl then nl # replace_crlf cs else c # replace_crlf (d # cs))"

text \<open>
  \<open>_format_description\<close>: a description that counts as false gives the fixed sentence; then
  \<open>description.replace\<close> is called, which an object does not have.
\<close>

definition format_description :: "description_value \<Rightarrow> error + string" where
  "format_description description =
     (if falsy description
      then Inr ''No detailed description available. Refer to ticket summary.''
      else (case description of
              Text d \<Rightarrow>
                (let formatted = strip (replace_crlf d)
                 in if length formatted > 500
                    then Inr (take 500 formatted @ ''...'' @ [nl]
                              @ ''[See full description in JIRA ticket]'')
                    else Inr formatted)
            | _ \<Rightarrow> Inl (AttributeError
                       ([CHR 0x27] @ ''dict' object has no attribute 'replace'' @ [CHR 0x27]))))"

definition format_discussion_context :: "string \<Rightarrow> string" where
  "format_discussion_context discussion_summary =
     (if discussion_summary = [] then ''No additional discussions available.''
      else (let formatted_discussions =
                  concat (map (\<lambda>disc. if strip disc \<noteq> [] then [''  - '' @ strip disc] else [])
                            (take 5 (split_blank [] discussion_summary)))
            in if formatted_discussions \<noteq> [] then join [nl] formatted_discussions
               else ''No significant discussion points.''))"

record step =
  action :: string
  expected :: string

record test_step = step +
  step_num :: nat
  step_type :: string

definition data_keywords :: "string list" where
  "data_keywords =
     [''email'', ''username'', ''password'', ''name'', ''address'', ''phone'', ''date'',
      ''number'', ''id'', ''code'']"

text \<open>The requirements collected before \<open>list(set(...))[:10]\<close>.\<close>

definition data_requirements :: "test_step list \<Rightarrow> string \<Rightarrow> string list" where
  "data_requirements test_steps description =
     [''Valid user credentials for test execution'',
      ''Test environment access configuration'',
      ''Sample data matching requirements specifications'']
     @ concat (map (\<lambda>keyword. if contains keyword (lower description)
                               then [''Valid test '' @ keyword @ '' data''] else [])
                   data_keywords)
     @ concat (map (\<lambda>s. (let action_lower = lower (action s)
                           in if contains ''data'' action_lower \<or> contains ''value'' action_lower
                                 \<or> contains ''input'' action_lower
                              then [''Data for: '' @ take 60 (action s)] else []))
                   test_steps)"

definition extract_test_data_requirements :: "env \<Rightarrow> test_step list \<Rightarrow> string \<Rightarrow> string list" where
  "extract_test_data_requirements e test_steps description =
     take 10 (env_set_order e (data_requirements test_steps description))"

text \<open>
  \<open>description.lower() if description else ""\<close> of the test data requirements is reached
  after \<open>_format_description\<close> has returned, that is with a text or with a value that counts
  as false: \<open>description_text\<close> is the text it works on.
\<close>

fun description_text :: "description_value \<Rightarrow> string" where
  "description_text (Text d) = d"
| "description_text v = []"

text \<open>The lines under \<open>TEST DATA REQUIREMENTS\<close>.\<close>

definition data_lines :: "string list \<Rightarrow> string" where
  "data_lines test_data = concat (map (\<lambda>data_item. ''- '' @ data_item @ [nl]) test_data)"

text \<open>The steps of a plan: one per given, when and then entry, then the cleanup step,
  numbered from 1.\<close>

definition plan_steps :: "test_scenario \<Rightarrow> test_step list" where
  "plan_steps sc =
     map (\<lambda>(n, s). \<lparr>action = action s, expected = expected s,
                      step_num = n, step_type = step_type s\<rparr>)
       (enumerate 1
         (map (\<lambda>g. \<lparr>action = ''Verify precondition: '' @ g,
                      expected = ''Precondition is met and ready for testing'',
                      step_num = 0, step_type = ''Precondition''\<rparr>) (given sc)
          @ map (\<lambda>w. \<lparr>action = expand_action_step w,
                        expected = ''Action completes without errors'',
                        step_num = 0, step_type = ''Action''\<rparr>) (when' sc)
          @ map (\<lambda>t. \<lparr>action = ''Verify: '' @ t,
                        expected = t,
                        step_num = 0, step_type = ''Validation''\<rparr>) (then' sc)
          @ [\<lparr>action = ''Clean up test data and restore initial state'',
               expected = ''System returns to original state'',
               step_num = 0, step_type = ''Cleanup''\<rparr>]))"

definition step_block :: "test_step \<Rightarrow> string" where
  \<open>step_block s =
     lines_nl
       [''Step '' @ show_nat (step_num s) @ '': ['' @ step_type s @ '']'',
        rule 80,
        ''Action:'',
        ''  '' @ action s,
        [],
        ''Expected Result:'',
        ''  '' @ expected s,
        [],
        ''Actual Result:'',
        ''  [ TO BE FILLED DURING EXECUTION ]'',
        [],
        ''Status: [ PASS / FAIL / BLOCKED ]'',
        [],
        replicate 80 CHR ''='',
        []]\<close>

definition create_manual_test_plan ::
  "env \<Rightarrow> string \<Rightarrow> nat \<Rightarrow> test_scenario \<Rightarrow> string \<Rightarrow> description_value \<Rightarrow> string \<Rightarrow> nat
     \<Rightarrow> error + string" where
  \<open>create_manual_test_plan e ticket_key test_number sc summary description discussion_summary
       total_tests =
     (let scenario_name = scenario sc;
          test_steps = plan_steps sc;
          precondition_steps = filter (\<lambda>s. step_type s = ''Precondition'') test_steps;
          validation_steps = filter (\<lambda>s. step_type s = ''Validation'') test_steps
      in case format_description description of
           Inl err \<Rightarrow> Inl err
         | Inr formatted_description \<Rightarrow>
             Inr (lines_nl
                  [replicate 80 CHR ''='',
                   ''MANUAL TEST PLAN'',
                   replicate 80 CHR ''='',
                   [],
                   ''TICKET ID:           '' @ ticket_key,
                   ''TEST ID:             '' @ ticket_key @ ''_Test'' @ show_nat test_number,
                   ''TEST NUMBER:         '' @ show_nat test_number @ '' of '' @ show_nat total_tests,
                   ''TEST NAME:           '' @ scenario_name,
                   ''CREATED DATE:        '' @ get_current_date e,
                   ''TEST TYPE:           Functional Test'',
                   ''PRIORITY:            High'',
                   ''AUTOMATION:          Planned'',
                   [],
                   replicate 80 CHR ''='',
                   ''TEST SUMMARY'',
                   replicate 80 CHR ''='',
                   summary,
                   [],
                   replicate 80 CHR ''='',
                   ''TEST OBJECTIVE'',
                   replicate 80 CHR ''='',
                   scenario_name,
                   [],
                   ''This test validates the functionality described in '' @ ticket_key @ '' ensuring that the'',
                   ''system behaves as expected according to the requirements and acceptance criteria.'',
                   [],
                   replicate 80 CHR ''='',
                   ''REQUIREMENTS REFERENCE'',
                   replicate 80 CHR ''='',
                   ''Ticket Description:'',
                   formatted_description,
                   []]
                  @ (if discussion_summary \<noteq> []
                     then
                       lines_nl
                       [''Additional Context from Discussions:'',
                        format_discussion_context discussion_summary,
                        []]
                     else [])
                  @ lines_nl
                    [replicate 80 CHR ''='',
                     ''TEST PRECONDITIONS'',
                     replicate 80 CHR ''='']
                  @ (if precondition_steps \<noteq> []
                     then concat (map (\<lambda>s. show_nat (step_num s) @ ''. '' @ action s @ [nl])
                                   precondition_steps)
                     else ''1. Application is accessible and running'' @ [nl]
                          @ ''2. Test user has appropriate access rights'' @ [nl]
                          @ ''3. Test environment is properly configured'' @ [nl])
                  @ lines_nl
                    [[],
                     replicate 80 CHR ''='',
                     ''TEST STEPS'',
                     replicate 80 CHR ''='',
                     []]
                  @ concat (map step_block test_steps)
                  @ lines_nl
                    [replicate 80 CHR ''='',
                     ''TEST DATA REQUIREMENTS'',
                     replicate 80 CHR ''='']
                  @ data_lines
                      (extract_test_data_requirements e test_steps (description_text description))
                  @ lines_nl
                    [[],
                     replicate 80 CHR ''='',
                     ''EXPECTED RESULTS SUMMARY'',
                     replicate 80 CHR ''='']
                  @ concat (map (\<lambda>(idx, s). show_nat idx @ ''. '' @ expected s @ [nl])
                             (enumerate 1 validation_steps))
                  @ lines_nl
                    [[],
                     replicate 80 CHR ''='',
                     ''PASS/FAIL CRITERIA'',
                     replicate 80 CHR ''='',
                     ''PASS: All test steps execute successfully and all expected results are observed'',
                     ''FAIL: Any test step fails or expected result is not observed'',
                     ''BLOCKED: Test cannot be executed due to environment or dependency issues'',
                     [],
                     replicate 80 CHR ''='',
                     ''NOTES AND OBSERVATIONS'',
                     replicate 80 CHR ''='',
                     ''[ TO BE FILLED DURING EXECUTION ]'',
                     [],
                     ''Tester Name:     _____________________'',
                     ''Test Date:       _____________________'',
                     ''Test Duration:   _____________________'',
                     ''Environment:     _____________________'',
                     ''Build/Version:   _____________________'',
                     [],
                     ''Final Status:    [ PASS / FAIL / BLOCKED ]'',
                     [],
                     replicate 80 CHR ''='',
                     ''DEFECTS FOUND'',
                     replicate 80 CHR ''='',
                     ''Defect ID | Severity | Description | Status'',
                     rule 80,
                     ''[ TO BE FILLED IF DEFECTS ARE FOUND ]'',
                     [],
                     replicate 80 CHR ''='',
                     ''END OF TEST PLAN - '' @ ticket_key @ ''_Test'' @ show_nat test_number,
                     replicate 80 CHR ''='']))\<close>

record additional_scenario =
  name :: string
  objective :: string
  steps :: "step list"
  scenario_type :: string

definition additional_scenarios :: "additional_scenario list" where
  \<open>additional_scenarios =
     [\<lparr>name = ''Negative Test - Invalid Input Data'',
        objective = ''Verify system handles invalid input gracefully'',
        steps =
          [\<lparr>action = ''Prepare invalid test data (empty, null, special characters)'',
             expected = ''Test data is prepared''\<rparr>,
           \<lparr>action = ''Attempt to perform the operation with invalid data'',
             expected = ''System rejects invalid input''\<rparr>,
           \<lparr>action = ''Verify appropriate error message is displayed'',
             expected = ''Clear error message explains the validation failure''\<rparr>,
           \<lparr>action = ''Verify system state remains unchanged'',
             expected = ''No data is corrupted or modified''\<rparr>],
        scenario_type = ''Negative''\<rparr>,
      \<lparr>name = ''Boundary Test - Minimum Values'',
        objective = ''Verify system behavior at minimum boundary conditions'',
        steps =
          [\<lparr>action = ''Identify minimum acceptable values from requirements'',
             expected = ''Boundaries are documented''\<rparr>,
           \<lparr>action = ''Test with minimum valid values'',
             expected = ''Operation succeeds with minimum values''\<rparr>,
           \<lparr>action = ''Test with values below minimum (if applicable)'',
             expected = ''System rejects or handles appropriately''\<rparr>,
           \<lparr>action = ''Verify data integrity at boundaries'',
             expected = ''Data is stored and displayed correctly''\<rparr>],
        scenario_type = ''Boundary''\<rparr>,
      \<lparr>name = ''Boundary Test - Maximum Values'',
        objective = ''Verify system behavior at maximum boundary conditions'',
        steps =
          [\<lparr>action = ''Identify maximum acceptable values from requirements'',
             expected = ''Boundaries are documented''\<rparr>,
           \<lparr>action = ''Test with maximum valid values'',
             expected = ''Operation succeeds with maximum values''\<rparr>,
           \<lparr>action = ''Test with values above maximum (if applicable)'',
             expected = ''System rejects or handles appropriately''\<rparr>,
           \<lparr>action = ''Verify performance and response time'',
             expected = ''System performs within acceptable limits''\<rparr>],
        scenario_type = ''Boundary''\<rparr>,
      \<lparr>name = ''Security Test - Access Control'',
        objective = ''Verify proper authorization and access controls'',
        steps =
          [\<lparr>action = ''Attempt operation with unauthorized user'',
             expected = ''Access is denied''\<rparr>,
           \<lparr>action = ''Verify appropriate error/permission message'',
             expected = ''User receives clear permission denied message''\<rparr>,
           \<lparr>action = ''Test with user having partial permissions'',
             expected = ''Only authorized actions are allowed''\<rparr>,
           \<lparr>action = ''Verify audit logs capture access attempts'',
             expected = ''Security events are logged''\<rparr>],
        scenario_type = ''Security''\<rparr>,
      \<lparr>name = ''Performance Test - Response Time'',
        objective = ''Verify system performs within acceptable time limits'',
        steps =
          [\<lparr>action = ''Execute operation with normal data load'',
             expected = ''Baseline performance is established''\<rparr>,
           \<lparr>action = ''Measure response time for the operation'',
             expected = ''Response time is within SLA requirements''\<rparr>,
           \<lparr>action = ''Test with increased data volume'',
             expected = ''Performance degrades gracefully''\<rparr>,
           \<lparr>action = ''Verify no memory leaks or resource issues'',
             expected = ''Resources are properly managed''\<rparr>],
        scenario_type = ''Performance''\<rparr>,
      \<lparr>name = ''Usability Test - User Experience'',
        objective = ''Verify user interface is intuitive and accessible'',
        steps =
          [\<lparr>action = ''Navigate to the feature using normal user flow'',
             expected = ''Navigation is intuitive''\<rparr>,
           \<lparr>action = ''Verify all UI elements are properly labeled'',
             expected = ''Labels are clear and descriptive''\<rparr>,
           \<lparr>action = ''Test keyboard navigation and accessibility'',
             expected = ''Feature is keyboard accessible''\<rparr>,
           \<lparr>action = ''Verify error messages are user-friendly'',
             expected = ''Messages guide user to resolution''\<rparr>],
        scenario_type = ''Usability''\<rparr>,
      \<lparr>name = ''Integration Test - External Dependencies'',
        objective = ''Verify proper integration with dependent systems'',
        steps =
          [\<lparr>action = ''Identify external system dependencies'',
             expected = ''Dependencies are documented''\<rparr>,
           \<lparr>action = ''Test with all dependencies available'',
             expected = ''Integration works correctly''\<rparr>,
           \<lparr>action = ''Test with dependency unavailable/timeout'',
             expected = ''System handles failures gracefully''\<rparr>,
           \<lparr>action = ''Verify error handling and retry logic'',
             expected = ''Appropriate error handling is in place''\<rparr>],
        scenario_type = ''Integration''\<rparr>,
      \<lparr>name = ''Data Validation Test - Input Constraints'',
        objective = ''Verify all input validations are properly enforced'',
        steps =
          [\<lparr>action = ''Test with required fields missing'',
             expected = ''Validation errors are shown''\<rparr>,
           \<lparr>action = ''Test with incorrect data types'',
             expected = ''Type validation works correctly''\<rparr>,
           \<lparr>action = ''Test with data exceeding length limits'',
             expected = ''Length constraints are enforced''\<rparr>,
           \<lparr>action = ''Test with SQL injection and XSS attempts'',
             expected = ''Input sanitization prevents attacks''\<rparr>],
        scenario_type = ''Validation''\<rparr>]\<close>

definition additional_step_block :: "nat \<times> step \<Rightarrow> string" where
  \<open>additional_step_block p =
     (case p of (idx, s) \<Rightarrow>
       lines_nl
       [''Step '' @ show_nat idx @ '':'',
        rule 80,
        ''Action:'',
        ''  '' @ action s,
        [],
        ''Expected Result:'',
        ''  '' @ expected s,
        [],
        ''Actual Result:'',
        ''  [ TO BE FILLED DURING EXECUTION ]'',
        [],
        ''Status: [ PASS / FAIL / BLOCKED ]'',
        [],
        replicate 80 CHR ''='',
        []])\<close>

definition create_additional_test_plan ::
  "env \<Rightarrow> string \<Rightarrow> nat \<Rightarrow> additional_scenario \<Rightarrow> description_value \<Rightarrow> string
     \<Rightarrow> error + string" where
  \<open>create_additional_test_plan e ticket_key test_number sc description discussion_summary =
     (case format_description description of
        Inl err \<Rightarrow> Inl err
      | Inr formatted_description \<Rightarrow>
          Inr (lines_nl
               [replicate 80 CHR ''='',
                ''MANUAL TEST PLAN - '' @ upper (scenario_type sc) @ '' TEST'',
                replicate 80 CHR ''='',
                [],
                ''TICKET ID:           '' @ ticket_key,
                ''TEST ID:             '' @ ticket_key @ ''_Test'' @ show_nat test_number,
                ''TEST NUMBER:         '' @ show_nat test_number,
                ''TEST NAME:           '' @ name sc,
                ''CREATED DATE:        '' @ get_current_date e,
                ''TEST TYPE:           '' @ scenario_type sc @ '' Test'',
                ''PRIORITY:            High'',
                ''AUTOMATION:          Planned'',
                [],
                replicate 80 CHR ''='',
                ''TEST OBJECTIVE'',
                replicate 80 CHR ''='',
                objective sc,
                [],
                ''This test ensures comprehensive coverage by validating '' @ lower (scenario_type sc) @ '' scenarios'',
                ''that complement the functional requirements specified in '' @ ticket_key @ ''.'',
                [],
                replicate 80 CHR ''='',
                ''REQUIREMENTS REFERENCE'',
                replicate 80 CHR ''='',
                ''Based on ticket: '' @ ticket_key,
                [],
                formatted_description,
                [],
                replicate 80 CHR ''='',
                ''TEST PRECONDITIONS'',
                replicate 80 CHR ''='',
                ''1. All functional tests for '' @ ticket_key @ '' have been reviewed'',
                ''2. Test environment is stable and accessible'',
                ''3. Test data is prepared according to test type requirements'',
                ''4. Required user accounts and permissions are configured'',
                [],
                replicate 80 CHR ''='',
                ''TEST STEPS'',
                replicate 80 CHR ''='',
                []]
               @ concat (map additional_step_block (enumerate 1 (steps sc)))
               @ lines_nl
                 [replicate 80 CHR ''='',
                  ''PASS/FAIL CRITERIA'',
                  replicate 80 CHR ''='',
                  ''PASS: All validation points pass and system behaves according to '' @ lower (scenario_type sc) @ '' test requirements'',
                  ''FAIL: Any expected behavior is not observed or system behaves incorrectly'',
                  ''BLOCKED: Test cannot be completed due to dependencies or environment issues'',
                  [],
                  replicate 80 CHR ''='',
                  ''NOTES AND OBSERVATIONS'',
                  replicate 80 CHR ''='',
                  ''[ TO BE FILLED DURING EXECUTION ]'',
                  [],
                  ''This '' @ lower (scenario_type sc) @ '' test is critical for ensuring 100% test coverage and'',
                  ''should be executed as part of the comprehensive test suite for '' @ ticket_key @ ''.'',
                  [],
                  ''Tester Name:     _____________________'',
                  ''Test Date:       _____________________'',
                  ''Environment:     _____________________'',
                  ''Build/Version:   _____________________'',
                  [],
                  ''Final Status:    [ PASS / FAIL / BLOCKED ]'',
                  [],
                  replicate 80 CHR ''='',
                  ''END OF TEST PLAN - '' @ ticket_key @ ''_Test'' @ show_nat test_number,
                  replicate 80 CHR ''='']))\<close>

text \<open>
  A loop that renders one text after the other and stops at the first that raises: the texts
  it has rendered, and the error if there is one.
\<close>

fun render_each :: "('a \<Rightarrow> error + 'b) \<Rightarrow> 'a list \<Rightarrow> 'b list \<times> error option" where
  "render_each f [] = ([], None)"
| "render_each f (x # xs) =
     (case f x of
        Inl err \<Rightarrow> ([], Some err)
      | Inr y \<Rightarrow> (case render_each f xs of (ys, raised) \<Rightarrow> (y # ys, raised)))"

text \<open>One plan for each of the eight supplementary scenarios, numbered from
  \<open>starting_index\<close>; nothing is returned when one of them raises.\<close>

definition generate_additional_test_cases ::
  "env \<Rightarrow> string \<Rightarrow> description_value \<Rightarrow> string \<Rightarrow> nat \<Rightarrow> error + string list" where
  "generate_additional_test_cases e ticket_key description discussion_summary starting_index =
     (case render_each
             (\<lambda>(current_index, sc).
                create_additional_test_plan e ticket_key current_index sc description
                  discussion_summary)
             (enumerate starting_index additional_scenarios) of
        (additional_tests, None) \<Rightarrow> Inr additional_tests
      | (additional_tests, Some err) \<Rightarrow> Inl err)"

text \<open>
  \<open>_generate_manual_test_plans\<close>: the files it writes, in the order of the writes, each with
  its text, and the error it raises, if any. A plan is written as soon as it is rendered; the
  supplementary plans are rendered together and then written. The list of paths that the
  source returns is the list of the first components.
\<close>

definition generate_manual_test_plans ::
  "env \<Rightarrow> ticket \<Rightarrow> analysis \<Rightarrow> path \<Rightarrow> (path \<times> string) list \<times> error option" where
  "generate_manual_test_plans e t a output_dir =
     (let ticket_key = analysis_ticket_key a;
          description = get_default (fields_description t) (Text []);
          summary = analysis_summary a;
          discussion_summary = analysis_discussion_summary a;
          test_scenarios = analysis_test_scenarios a
      in case render_each
                (\<lambda>(idx, sc).
                   case create_manual_test_plan e ticket_key idx sc summary description
                          discussion_summary (length test_scenarios) of
                     Inl err \<Rightarrow> Inl err
                   | Inr test_plan_content \<Rightarrow>
                       Inr (output_dir @ [ticket_key @ ''_Test'' @ show_nat idx @ ''.txt''],
                            test_plan_content))
                (enumerate 1 test_scenarios) of
           (plans, Some err) \<Rightarrow> (plans, Some err)
         | (plans, None) \<Rightarrow>
             (case generate_additional_test_cases e ticket_key description discussion_summary
                     (length test_scenarios + 1) of
                Inl err \<Rightarrow> (plans, Some err)
              | Inr additional_tests \<Rightarrow>
                  (plans
                   @ map (\<lambda>(idx, test_content).
                            (output_dir @ [ticket_key @ ''_Test'' @ show_nat idx @ ''.txt''],
                             test_content))
                       (enumerate (length test_scenarios + 1) additional_tests),
                   None)))"

section \<open>Test scripts\<close>

datatype language = Java | Python

fun language_str :: "language \<Rightarrow> string" where
  "language_str Java = ''java''"
| "language_str Python = ''python''"

text \<open>\<open>language.title()\<close>.\<close>

fun language_title :: "language \<Rightarrow> string" where
  "language_title Java = ''Java''"
| "language_title Python = ''Python''"

fun complexity_str :: "complexity \<Rightarrow> string" where
  "complexity_str Low = ''low''"
| "complexity_str Medium = ''medium''"
| "complexity_str High = ''high''"

text \<open>The generators of files return the files they write, in the order of the writes, each
  with its text; the list of paths that the source returns is the list of their first
  components.\<close>

definition generate_java_tests :: "analysis \<Rightarrow> path \<Rightarrow> (path \<times> string) list" where
  \<open>generate_java_tests a output_dir =
     (let class_name = replace_char CHR ''-'' ''_'' (analysis_ticket_key a)
      in [(output_dir @ [''StepDefinitions.java''],
           lines_nl
                       [''package stepdefinitions;'',
                        [],
                        ''import io.cucumber.java.en.*;'',
                        ''import io.cucumber.java.After;'',
                        ''import org.openqa.selenium.WebDriver;'',
                        ''import org.openqa.selenium.chrome.ChromeDriver;'',
                        ''import org.testng.Assert;'',
                        [],
                        ''public class '' @ class_name @ ''StepDefinitions {'',
                        ''    private WebDriver driver;'',
                        [],
                        ''    @Given("{string}")'',
                        ''    public void given_step(String step) {'',
                        ''        System.out.println("Given: " + step);'',
                        ''        driver = new ChromeDriver();'',
                        ''        // TODO: Implement step logic'',
                        ''    }'',
                        [],
                        ''    @When("{string}")'',
                        ''    public void when_step(String step) {'',
                        ''        System.out.println("When: " + step);'',
                        ''        // TODO: Implement step logic'',
                        ''    }'',
                        [],
                        ''    @Then("{string}")'',
                        ''    public void then_step(String step) {'',
                        ''        System.out.println("Then: " + step);'',
                        ''        // TODO: Implement assertion logic'',
                        ''        Assert.assertTrue(true, "Placeholder assertion");'',
                        ''    }'',
                        [],
                        ''    @After'',
                        ''    public void tearDown() {'',
                        ''        if (driver != null) {'',
                        ''            driver.quit();'',
                        ''        }'',
                        ''    }'',
                        ''}'']),
          (output_dir @ [''TestRunner.java''],
           lines_nl
                       [''package runners;'',
                        [],
                        ''import io.cucumber.testng.AbstractTestNGCucumberTests;'',
                        ''import io.cucumber.testng.CucumberOptions;'',
                        [],
                        ''@CucumberOptions('',
                        ''    features = "src/test/resources/features/'' @ analysis_ticket_key a @ ''.feature",'',
                        ''    glue = {"stepdefinitions"},'',
                        ''    plugin = {'',
                        ''        "pretty",'',
                        ''        "html:target/cucumber-reports/cucumber.html",'',
                        ''        "json:target/cucumber-reports/cucumber.json"'',
                        ''    },'',
                        ''    monochrome = true'',
                        '')'',
                        ''public class '' @ class_name @ ''TestRunner extends AbstractTestNGCucumberTests {'',
                        ''}'']),
          (output_dir @ [''pom.xml''],
           lines_nl
                       [''<?xml version="1.0" encoding="UTF-8"?>'',
                        ''<project xmlns="http://maven.apache.org/POM/4.0.0"'',
                        ''         xmlns:xsi="http://www.w3.org/2001/XMLSchema-instance"'',
                        ''         xsi:schemaLocation="http://maven.apache.org/POM/4.0.0'',
                        ''         http://maven.apache.org/xsd/maven-4.0.0.xsd">'',
                        ''    <modelVersion>4.0.0</modelVersion>'',
                        [],
                        ''    <groupId>com.testautomation</groupId>'',
                        ''    <artifactId>'' @ lower (analysis_ticket_key a) @ ''</artifactId>'',
                        ''    <version>1.0-SNAPSHOT</version>'',
                        [],
                        ''    <properties>'',
                        ''        <maven.compiler.source>11</maven.compiler.source>'',
                        ''        <maven.compiler.target>11</maven.compiler.target>'',
                        ''        <selenium.version>4.15.0</selenium.version>'',
                        ''        <cucumber.version>7.14.0</cucumber.version>'',
                        ''        <testng.version>7.8.0</testng.version>'',
                        ''    </properties>'',
                        [],
                        ''    <dependencies>'',
                        ''        <dependency>'',
                        ''            <groupId>org.seleniumhq.selenium</groupId>'',
                        ''            <artifactId>selenium-java</artifactId>'',
                        ''            <version>${selenium.version}</version>'',
                        ''        </dependency>'',
                        ''        <dependency>'',
                        ''            <groupId>io.cucumber</groupId>'',
                        ''            <artifactId>cucumber-java</artifactId>'',
                        ''            <version>${cucumber.version}</version>'',
                        ''        </dependency>'',
                        ''        <dependency>'',
                        ''            <groupId>io.cucumber</groupId>'',
                        ''            <artifactId>cucumber-testng</artifactId>'',
                        ''            <version>${cucumber.version}</version>'',
                        ''        </dependency>'',
                        ''        <dependency>'',
                        ''            <groupId>org.testng</groupId>'',
                        ''            <artifactId>testng</artifactId>'',
                        ''            <version>${testng.version}</version>'',
                        ''        </dependency>'',
                        ''    </dependencies>'',
                        ''</project>''])])\<close>

definition generate_python_tests :: "analysis \<Rightarrow> path \<Rightarrow> (path \<times> string) list" where
  \<open>generate_python_tests a output_dir =
     [(output_dir @ [''step_definitions.py''],
       lines_nl
         [''from behave import given, when, then'',
          ''from selenium import webdriver'',
          ''from selenium.webdriver.chrome.service import Service'',
          ''from webdriver_manager.chrome import ChromeDriverManager'',
          [],
          ''@given(u'{step}')'',
          ''def step_given(context, step):'',
          ''    print(f"Given: {step}")'',
          ''    context.driver = webdriver.Chrome(service=Service(ChromeDriverManager().install()))'',
          ''    # TODO: Implement step logic'',
          [],
          ''@when(u'{step}')'',
          ''def step_when(context, step):'',
          ''    print(f"When: {step}")'',
          ''    # TODO: Implement step logic'',
          [],
          ''@then(u'{step}')'',
          ''def step_then(context, step):'',
          ''    print(f"Then: {step}")'',
          ''    # TODO: Implement assertion logic'',
          ''    assert True, "Placeholder assertion"'',
          [],
          ''def after_scenario(context, scenario):'',
          ''    if hasattr(context, 'driver'):'',
          ''        context.driver.quit()'']),
      (output_dir @ [''requirements.txt''],
       lines_nl
         [''selenium==4.15.0'',
          ''behave==1.2.6'',
          ''webdriver-manager==4.0.1'',
          ''pytest==7.4.3'',
          ''allure-behave==2.13.2''])]\<close>

definition generate_testng_xml :: "analysis \<Rightarrow> string" where
  \<open>generate_testng_xml a =
     (let class_name = replace_char CHR ''-'' ''_'' (analysis_ticket_key a)
      in lines_nl
       [''<?xml version="1.0" encoding="UTF-8"?>'',
        ''<!DOCTYPE suite SYSTEM "http://testng.org/testng-1.0.dtd">'',
        ''<suite name="'' @ analysis_ticket_key a @ '' Test Suite" parallel="false">'',
        ''    <test name="'' @ analysis_ticket_key a @ '' Tests">'',
        ''        <classes>'',
        ''            <class name="runners.'' @ class_name @ ''TestRunner"/>'',
        ''        </classes>'',
        ''    </test>'',
        ''</suite>''])\<close>

definition readme_scenario :: "nat \<times> test_scenario \<Rightarrow> string" where
  \<open>readme_scenario p =
     (case p of (i, s) \<Rightarrow>
       join [nl]
         [''### '' @ show_nat (i + 1) @ ''. '' @ scenario s,
          ''- **Given**: '' @ join '', '' (given s),
          ''- **When**: '' @ join '', '' (when' s),
          ''- **Then**: '' @ join '', '' (then' s)])\<close>

definition generate_readme :: "analysis \<Rightarrow> language \<Rightarrow> string" where
  \<open>generate_readme a language =
     (let scenarios_text =
            join [nl, nl] (map readme_scenario (enumerate 0 (analysis_test_scenarios a)));
          setup_instructions =
            (if language = Java
             then join [nl]
             [''1. Install Java JDK 11 or higher'',
              ''2. Install Maven'',
              ''3. Run: `mvn clean install`'',
              ''4. Execute tests: `mvn test`'']
             else join [nl]
             [''1. Install Python 3.8 or higher'',
              ''2. Install dependencies: `pip install -r requirements.txt`'',
              ''3. Run tests: `behave`''])
      in lines_nl
       [''# Test Automation for '' @ analysis_ticket_key a,
        [],
        ''## Summary'',
        analysis_summary a,
        [],
        ''## Test Information'',
        ''- **Ticket**: '' @ analysis_ticket_key a,
        ''- **Estimated Test Count**: '' @ show_nat (estimated_test_count a),
        ''- **Complexity**: '' @ complexity_str (analysis_complexity a),
        ''- **Language**: '' @ language_str language,
        ''- **Framework**: Selenium + TestNG + Cucumber'',
        [],
        ''## Setup Instructions'',
        [],
        ''### '' @ language_title language @ '' Setup'',
        [],
        setup_instructions,
        [],
        ''## Test Scenarios'',
        [],
        scenarios_text,
        [],
        ''## Generated Files'',
        ''- Feature file with Gherkin scenarios'',
        ''- Step definition implementations'',
        ''- Test runner configuration'',
        ''- TestNG XML suite configuration'',
        ''- Dependencies configuration'',
        [],
        ''## Next Steps'',
        ''1. Review generated test scenarios'',
        ''2. Implement step definitions with actual test logic'',
        ''3. Add page objects for UI elements'',
        ''4. Configure test data and environments'',
        ''5. Run tests and review results'',
        [],
        ''## Notes'',
        ''- Auto-generated test suite based on JIRA ticket '' @ analysis_ticket_key a,
        ''- Review and enhance test logic as needed'',
        ''- Add assertions specific to your application'',
        ''- Integrate with CI/CD pipeline''])\<close>

text \<open>\<open>output_path or self.output_dir\<close>\<close>

definition path_or :: "string option \<Rightarrow> string \<Rightarrow> string" where
  "path_or output_path d =
     (case output_path of None \<Rightarrow> d | Some p \<Rightarrow> if p = [] then d else p)"

text \<open>
  \<open>generate_tests\<close>: an error of the analysis propagates before anything is written; an
  error of the manual test plans propagates after the files before them are written.
\<close>

definition generate_tests ::
  "env \<Rightarrow> ticket \<Rightarrow> language \<Rightarrow> string option \<Rightarrow> filesystem
     \<Rightarrow> (error + response) \<times> filesystem" where
  "generate_tests e t language output_path fs =
     (case analyze_requirements t of
        Inl err \<Rightarrow> (Inl err, fs)
      | Inr a \<Rightarrow>
          (let ticket_key = key t;
               output_directory = [path_or output_path (env_output_dir e), ticket_key];
               writes =
                 [(output_directory @ [ticket_key @ ''.feature''], generate_feature_file a)]
                 @ (case language of
                      Java \<Rightarrow> generate_java_tests a output_directory
                    | Python \<Rightarrow> generate_python_tests a output_directory)
                 @ [(output_directory @ [''testng.xml''], generate_testng_xml a)]
                 @ [(output_directory @ [''README.md''], generate_readme a language)]
           in case generate_manual_test_plans e t a output_directory of
                (plans, raised) \<Rightarrow>
                  (let generated_files = map fst (writes @ plans);
                       fs' = write_all (writes @ plans) (mkdir_parents output_directory fs)
                   in case raised of
                        Some err \<Rightarrow> (Inl err, fs')
                      | None \<Rightarrow>
                          (Inr (Generated generated_files
                                  (''Generated '' @ show_nat (length generated_files)
                                   @ '' files for '' @ ticket_key)),
                           fs'))))"

section \<open>The tool operations\<close>

text \<open>Each operation returns its result, or the error it raises, and the file system it
  leaves.\<close>

definition mcp_fetch_jira_ticket :: "jira \<Rightarrow> string \<Rightarrow> error + ticket" where
  "mcp_fetch_jira_ticket j ticket_id = get_ticket_with_discussions j ticket_id"

definition mcp_analyze_ticket_requirements :: "jira \<Rightarrow> string \<Rightarrow> error + analysis" where
  "mcp_analyze_ticket_requirements j ticket_id =
     (case get_ticket_with_discussions j ticket_id of
        Inl err \<Rightarrow> Inl err
      | Inr t \<Rightarrow> analyze_requirements t)"

definition mcp_generate_test_scripts ::
  "env \<Rightarrow> jira \<Rightarrow> string \<Rightarrow> string \<Rightarrow> string option \<Rightarrow> filesystem
     \<Rightarrow> (error + response) \<times> filesystem" where
  "mcp_generate_test_scripts e j ticket_id language output_path fs =
     (case get_ticket_with_discussions j ticket_id of
        Inl err \<Rightarrow> (Inl err, fs)
      | Inr t \<Rightarrow>
          if language \<notin> set [''java'', ''python'']
          then (Inr (Failure (''Unsupported language: '' @ language
                              @ ''. Use 'java' or 'python'' @ [CHR 0x27])), fs)
          else generate_tests e t (if language = ''java'' then Java else Python)
                 output_path fs)"

definition mcp_generate_gherkin_features ::
  "jira \<Rightarrow> string \<Rightarrow> string option \<Rightarrow> filesystem \<Rightarrow> (error + response) \<times> filesystem" where
  "mcp_generate_gherkin_features j ticket_id output_path fs =
     (case get_ticket_with_discussions j ticket_id of
        Inl err \<Rightarrow> (Inl err, fs)
      | Inr t \<Rightarrow> generate_gherkin_features t output_path fs)"

definition mcp_generate_manual_test_plans ::
  "env \<Rightarrow> jira \<Rightarrow> string \<Rightarrow> string option \<Rightarrow> filesystem
     \<Rightarrow> (error + response) \<times> filesystem" where
  "mcp_generate_manual_test_plans e j ticket_id output_path fs =
     (case get_ticket_with_discussions j ticket_id of
        Inl err \<Rightarrow> (Inl err, fs)
      | Inr t \<Rightarrow>
          (case analyze_requirements t of
             Inl err \<Rightarrow> (Inl err, fs)
           | Inr a \<Rightarrow>
               (let output_dir = [path_or output_path (env_output_dir e), ticket_id]
                in case generate_manual_test_plans e t a output_dir of
                     (plans, raised) \<Rightarrow>
                       (let test_plan_files = map fst plans;
                            fs' = write_all plans (mkdir_parents output_dir fs)
                        in case raised of
                             Some err \<Rightarrow> (Inl err, fs')
                           | None \<Rightarrow>
                               (Inr (Plans test_plan_files
                                       (''Generated '' @ show_nat (length test_plan_files)
                                        @ '' manual test plan files for '' @ ticket_id)
                                       (length test_plan_files)),
                                fs')))))"

section \<open>Example inputs\<close>

definition example_ticket :: ticket where
  "example_ticket =
     \<lparr>key = ''PROJ-1'', fields_description = Some (Text []), fields_summary = Some ''Login'',
      discussions = Some [], ticket_discussion_summary = Some []\<rparr>"

definition raw_ticket :: ticket where
  "raw_ticket =
     \<lparr>key = ''PROJ-1'', fields_description = Some (Text []), fields_summary = Some ''Login'',
      discussions = None, ticket_discussion_summary = None\<rparr>"

text \<open>A ticket without description, which the tracker sends as \<open>null\<close>, and a ticket whose
  description is a document in the Atlassian Document Format.\<close>

definition null_ticket :: ticket where
  "null_ticket =
     \<lparr>key = ''PROJ-1'', fields_description = Some Null, fields_summary = Some ''Login'',
      discussions = Some [], ticket_discussion_summary = Some []\<rparr>"

definition adf_ticket :: ticket where
  "adf_ticket =
     \<lparr>key = ''PROJ-1'',
      fields_description =
        Some (Object [''type'', ''version'', ''content'']
                ''{'type': 'doc', 'version': 1, 'content': []}''),
      fields_summary = Some ''Login'',
      discussions = Some [], ticket_discussion_summary = Some []\<rparr>"

text \<open>A tracker that answers, one whose comment request fails, and one that is down.\<close>

definition jira_up :: jira where
  "jira_up = \<lparr>fetch_ticket = (\<lambda>ticket_id. Inr raw_ticket),
              get_ticket_comments = (\<lambda>ticket_id. Inr [])\<rparr>"

definition jira_comments_down :: jira where
  "jira_comments_down =
     \<lparr>fetch_ticket = (\<lambda>ticket_id. Inr raw_ticket),
      get_ticket_comments = (\<lambda>ticket_id. Inl (ValueError ''Failed to fetch comments: timed out''))\<rparr>"

definition jira_down :: jira where
  "jira_down =
     \<lparr>fetch_ticket = (\<lambda>ticket_id. Inl (ValueError ''Error fetching ticket: connection refused'')),
      get_ticket_comments = (\<lambda>ticket_id. Inl (ValueError ''Failed to fetch comments: connection refused''))\<rparr>"

definition jira_null :: jira where
  "jira_null = \<lparr>fetch_ticket = (\<lambda>ticket_id. Inr null_ticket),
                get_ticket_comments = (\<lambda>ticket_id. Inr [])\<rparr>"

definition jira_adf :: jira where
  "jira_adf = \<lparr>fetch_ticket = (\<lambda>ticket_id. Inr adf_ticket),
               get_ticket_comments = (\<lambda>ticket_id. Inr [])\<rparr>"

definition example_env :: "nat \<Rightarrow> env" where
  "example_env d =
     \<lparr>env_output_dir = ''./generated-tests'',
      env_now = \<lparr>year = 2025, month = January, day = d\<rparr>,
      env_set_order = remdups\<rparr>"

definition empty_fs :: filesystem where
  "empty_fs = \<lparr>dirs = {}, files = Map.empty\<rparr>"

definition example_scenario :: test_scenario where
  "example_scenario =
     \<lparr>scenario = ''S'', given = [''test data is loaded'', ''test data is loaded''],
      when' = [''user enters the input value''], then' = [''the value is stored'']\<rparr>"

text \<open>Another order in which a set may be listed: the one of \<open>example_env\<close>, backwards.\<close>

definition reversed_order :: "string list \<Rightarrow> string list" where
  "reversed_order xs = rev (remdups xs)"


section \<open>Comparing the files of two runs\<close>

text \<open>
  The heading under which \<open>_create_manual_test_plan\<close> lists the test data, and the relation
  of two texts that are the same but for the test data: they are one text around that
  heading and the lines that follow it, each text with the lines of its own run, which are
  the entries that \<open>_extract_test_data_requirements\<close> returns for the same steps and the
  same description, one \<open>- entry\<close> line each.
\<close>

definition test_data_heading :: string where
  "test_data_heading =
     lines_nl [replicate 80 CHR ''='', ''TEST DATA REQUIREMENTS'', replicate 80 CHR ''='']"

definition same_but_test_data :: "env \<Rightarrow> env \<Rightarrow> string \<Rightarrow> string \<Rightarrow> bool" where
  "same_but_test_data e e' c c' \<longleftrightarrow>
     (\<exists>A B test_steps d.
        c = A @ test_data_heading
              @ data_lines (extract_test_data_requirements e test_steps d) @ B \<and>
        c' = A @ test_data_heading
               @ data_lines (extract_test_data_requirements e' test_steps d) @ B)"

section \<open>Properties of the extraction\<close>

lemma all_entries_gwt:
  "sc \<in> set (map (gwt_scenario s) ms) \<Longrightarrow> given sc \<noteq> [] \<and> when' sc \<noteq> [] \<and> then' sc \<noteq> []"
  by (auto simp: gwt_scenario_def)

lemma all_entries_discussion:
  "sc \<in> set (extract_scenarios_from_discussions ds s) \<Longrightarrow>
     given sc \<noteq> [] \<and> when' sc \<noteq> [] \<and> then' sc \<noteq> []"
  by (auto simp: extract_scenarios_from_discussions_def discussion_scenario_def Let_def
      split: if_splits)

lemma finditer_gwt_blank: "finditer gwt_pattern [nl, nl] = []"
  by code_simp

lemma extract_fallback: "extract_test_scenarios [] summary [] = [fallback_scenario summary]"
  by (simp add: extract_test_scenarios_def finditer_gwt_blank)

lemma finditer_gwt_example:
  "finditer gwt_pattern
     (''Given user is logged in\<newline>When user clicks submit\<newline>Then order is placed'' @ [nl, nl]) =
   [[(3, ''order is placed''), (2, ''user clicks submit''), (1, ''user is logged in'')]]"
  by code_simp

lemma finditer_gwt_example2:
  "finditer gwt_pattern
     (''GIVEN  user is logged in \<newline>when'' @ [CHR 0x09] @ ''user clicks submit\<newline>tHeN order is placed  '' @ [nl, nl]) =
   [[(3, ''order is placed  ''), (2, ''user clicks submit''), (1, ''user is logged in '')]]"
  by code_simp

lemma strips:
  "strip ''order is placed  '' = ''order is placed''"
  "strip ''user is logged in '' = ''user is logged in''"
  "strip ''user is logged in'' = ''user is logged in''"
  "strip ''user clicks submit'' = ''user clicks submit''"
  "strip ''order is placed'' = ''order is placed''"
  by code_simp+

text \<open>
  Claim C1. For every description, summary and discussion summary the extracted list is not
  empty and every scenario in it has at least one entry in each of given, when and then; with
  an empty description and an empty discussion summary the result is exactly the one fallback
  scenario, labelled \<open>Test\<close> followed by the summary, with the three fixed fallback strings
  (the summary may be empty as well).
\<close>

theorem C1:
  "extract_test_scenarios description summary discussion_summary \<noteq> [] \<and>
   (\<forall>sc \<in> set (extract_test_scenarios description summary discussion_summary).
      given sc \<noteq> [] \<and> when' sc \<noteq> [] \<and> then' sc \<noteq> []) \<and>
   extract_test_scenarios [] summary [] =
     [\<lparr>scenario = ''Test '' @ summary,
       given = [''User is on the application''],
       when' = [''User performs the action described in ticket''],
       then' = [''Expected behavior occurs as per ticket description'']\<rparr>]"
proof -
  have nonempty: "extract_test_scenarios description summary discussion_summary \<noteq> []"
    by (simp add: extract_test_scenarios_def Let_def)
  have entries: "given sc \<noteq> [] \<and> when' sc \<noteq> [] \<and> then' sc \<noteq> []"
    if "sc \<in> set (extract_test_scenarios description summary discussion_summary)" for sc
  proof -
    from that consider
        "sc = fallback_scenario summary"
      | "sc \<in> set (map (gwt_scenario summary)
           (finditer gwt_pattern (description @ [nl, nl] @ discussion_summary)))"
      | "sc \<in> set (extract_scenarios_from_discussions discussion_summary summary)"
      by (auto simp: extract_test_scenarios_def Let_def split: if_splits)
    then show ?thesis
    proof cases
      case 1
      then show ?thesis by (simp add: fallback_scenario_def)
    next
      case 2
      then show ?thesis by (rule all_entries_gwt)
    next
      case 3
      then show ?thesis by (rule all_entries_discussion)
    qed
  qed
  have fallback: "extract_test_scenarios [] summary [] =
     [\<lparr>scenario = ''Test '' @ summary,
       given = [''User is on the application''],
       when' = [''User performs the action described in ticket''],
       then' = [''Expected behavior occurs as per ticket description'']\<rparr>]"
    by (simp add: extract_fallback fallback_scenario_def)
  from nonempty entries fallback show ?thesis by blast
qed

theorem C1_witness:
  "fallback_scenario ''Login'' \<in> set (extract_test_scenarios [] ''Login'' []) \<and>
   given (fallback_scenario ''Login'') \<noteq> [] \<and>
   when' (fallback_scenario ''Login'') \<noteq> [] \<and>
   then' (fallback_scenario ''Login'') \<noteq> []"
  using C1 [of "[]" "''Login''" "[]"] by (simp add: fallback_scenario_def)

lemma gwt_example_scenarios:
  "map (gwt_scenario summary)
     [[(3, ''order is placed''), (2, ''user clicks submit''), (1, ''user is logged in'')]] =
   [\<lparr>scenario = ''Scenario: '' @ summary, given = [''user is logged in''],
     when' = [''user clicks submit''], then' = [''order is placed'']\<rparr>]"
  by (simp add: gwt_scenario_def group_def strips [simplified])

text \<open>
  Claim C3. For the three-line description of the specification, any summary and an empty
  discussion summary, the extraction yields a scenario whose given, when and then are the
  three captured texts. The keywords match in any case and the captured text is trimmed: the
  same description with other cases and surrounding blanks gives the same three lists.
\<close>

theorem C3:
  "extract_test_scenarios
     ''Given user is logged in\<newline>When user clicks submit\<newline>Then order is placed'' summary [] =
   [\<lparr>scenario = ''Scenario: '' @ summary, given = [''user is logged in''],
     when' = [''user clicks submit''], then' = [''order is placed'']\<rparr>] \<and>
   (\<exists>sc \<in> set (extract_test_scenarios
       ''Given user is logged in\<newline>When user clicks submit\<newline>Then order is placed'' summary []).
      given sc = [''user is logged in''] \<and> when' sc = [''user clicks submit''] \<and>
      then' sc = [''order is placed'']) \<and>
   (\<exists>sc \<in> set (extract_test_scenarios
       (''GIVEN  user is logged in \<newline>when'' @ [CHR 0x09] @
         ''user clicks submit\<newline>tHeN order is placed  '') summary []).
      given sc = [''user is logged in''] \<and> when' sc = [''user clicks submit''] \<and>
      then' sc = [''order is placed''])"
proof -
  have a: "extract_test_scenarios
     ''Given user is logged in\<newline>When user clicks submit\<newline>Then order is placed'' summary [] =
   [\<lparr>scenario = ''Scenario: '' @ summary, given = [''user is logged in''],
     when' = [''user clicks submit''], then' = [''order is placed'']\<rparr>]"
    by (simp add: extract_test_scenarios_def finditer_gwt_example [simplified]
        gwt_example_scenarios [simplified])
  have b: "extract_test_scenarios
       (''GIVEN  user is logged in \<newline>when'' @ [CHR 0x09] @
         ''user clicks submit\<newline>tHeN order is placed  '') summary [] =
   [\<lparr>scenario = ''Scenario: '' @ summary, given = [''user is logged in''],
     when' = [''user clicks submit''], then' = [''order is placed'']\<rparr>]"
    by (simp add: extract_test_scenarios_def finditer_gwt_example2 [simplified]
        gwt_scenario_def group_def strips [simplified])
  show ?thesis unfolding a b by simp
qed

text \<open>
  Claim C4. The complexity is low for at most 2 scenarios and a description shorter than 500,
  else medium for at most 5 scenarios and a description shorter than 1500, else high; for a
  fixed description more scenarios never lower the level, and for fixed scenarios a longer
  description never lowers it.
\<close>

theorem C4:
  "calculate_complexity scenarios description =
     (if length scenarios \<le> 2 \<and> length description < 500 then Low
      else if length scenarios \<le> 5 \<and> length description < 1500 then Medium
      else High) \<and>
   (length scenarios \<le> length scenarios' \<longrightarrow>
      level (calculate_complexity scenarios description)
        \<le> level (calculate_complexity scenarios' description)) \<and>
   (length description \<le> length description' \<longrightarrow>
      level (calculate_complexity scenarios description)
        \<le> level (calculate_complexity scenarios description'))"
  by (simp add: calculate_complexity_def Let_def)

theorem C4_witness:
  "length (replicate 2 (fallback_scenario [])) \<le> length (replicate 3 (fallback_scenario [])) \<and>
   length (replicate 499 CHR ''a'') \<le> length (replicate 500 CHR ''a'') \<and>
   calculate_complexity (replicate 2 (fallback_scenario [])) (replicate 499 CHR ''a'') = Low \<and>
   calculate_complexity (replicate 3 (fallback_scenario [])) (replicate 499 CHR ''a'') = Medium \<and>
   calculate_complexity (replicate 2 (fallback_scenario [])) (replicate 500 CHR ''a'') = Medium \<and>
   level (calculate_complexity (replicate 2 (fallback_scenario [])) (replicate 499 CHR ''a''))
     \<le> level (calculate_complexity (replicate 3 (fallback_scenario [])) (replicate 499 CHR ''a'')) \<and>
   level (calculate_complexity (replicate 2 (fallback_scenario [])) (replicate 499 CHR ''a''))
     \<le> level (calculate_complexity (replicate 2 (fallback_scenario [])) (replicate 500 CHR ''a''))"
  using C4 [of "replicate 2 (fallback_scenario [])" "replicate 499 CHR ''a''"
      "replicate 3 (fallback_scenario [])" "replicate 500 CHR ''a''"]
  by (simp add: calculate_complexity_def)

text \<open>
  Claim C9, as stated, fails: the label of a scenario made from a Given-When-Then match is
  not the ticket summary itself. For the summary \<open>Login\<close> it is \<open>Scenario: Login\<close>.
\<close>

theorem C9_counterexample:
  "map scenario (extract_test_scenarios
     ''Given user is logged in\<newline>When user clicks submit\<newline>Then order is placed''
     ''Login'' []) = [''Scenario: Login''] \<and>
   map scenario (extract_test_scenarios
     ''Given user is logged in\<newline>When user clicks submit\<newline>Then order is placed''
     ''Login'' []) \<noteq> [''Login'']"
  by (simp add: extract_test_scenarios_def finditer_gwt_example [simplified]
      gwt_example_scenarios [simplified])

text \<open>
  Claim C9, amended. The \<open>i\<close>-th Given-When-Then match found in the combined text yields the
  \<open>i\<close>-th scenario of the result, and its label is \<open>Scenario: \<close> followed by the ticket
  summary.
\<close>

theorem C9:
  "i < length (finditer gwt_pattern (description @ [nl, nl] @ discussion_summary)) \<longrightarrow>
   i < length (extract_test_scenarios description summary discussion_summary) \<and>
   extract_test_scenarios description summary discussion_summary ! i =
     gwt_scenario summary
       (finditer gwt_pattern (description @ [nl, nl] @ discussion_summary) ! i) \<and>
   scenario (extract_test_scenarios description summary discussion_summary ! i) =
     ''Scenario: '' @ summary"
  by (auto simp: extract_test_scenarios_def Let_def nth_append gwt_scenario_def)

theorem C9_witness:
  "0 < length (finditer gwt_pattern
     (''Given user is logged in\<newline>When user clicks submit\<newline>Then order is placed''
       @ [nl, nl] @ [])) \<and>
   scenario (extract_test_scenarios
     ''Given user is logged in\<newline>When user clicks submit\<newline>Then order is placed''
     ''Login'' [] ! 0) = ''Scenario: Login''"
  using C9 [of 0 "''Given user is logged in\<newline>When user clicks submit\<newline>Then order is placed''"
      "[]" "''Login''"]
  by (simp add: finditer_gwt_example [simplified] gwt_scenario_def)

section \<open>Properties of the ticket client\<close>

text \<open>
  Claim C6. When the ticket fetch succeeds and the comment fetch raises, whatever the error,
  \<open>get_ticket_with_discussions\<close> returns the fetched ticket with \<open>discussions\<close> set to the
  empty list and \<open>discussion_summary\<close> to the empty string; the error does not propagate.
\<close>

theorem C6:
  "fetch_ticket j ticket_id = Inr t \<Longrightarrow> get_ticket_comments j ticket_id = Inl err \<Longrightarrow>
   get_ticket_with_discussions j ticket_id =
     Inr (t\<lparr>discussions := Some [], ticket_discussion_summary := Some []\<rparr>)"
  by (simp add: get_ticket_with_discussions_def)

theorem C6_witness:
  "fetch_ticket jira_comments_down ''PROJ-1'' = Inr raw_ticket \<and>
   get_ticket_comments jira_comments_down ''PROJ-1'' =
     Inl (ValueError ''Failed to fetch comments: timed out'') \<and>
   get_ticket_with_discussions jira_comments_down ''PROJ-1'' = Inr example_ticket"
  using C6 [of jira_comments_down "''PROJ-1''" raw_ticket
      "ValueError ''Failed to fetch comments: timed out''"]
  by (simp add: jira_comments_down_def raw_ticket_def example_ticket_def)

section \<open>Properties of the generated files\<close>

lemma write_all_eq: "write_all ws fs = fs\<lparr>files := files fs ++ map_of (rev ws)\<rparr>"
  unfolding write_all_def
  by (induction ws arbitrary: fs) (auto simp: write_text_def map_add_def fun_eq_iff split: option.splits)

lemma map_add_twice: "(m ++ f) ++ f = m ++ f"
  by (simp add: map_add_def fun_eq_iff split: option.splits)

lemma rerun: "write_all ws (mkdir_parents d (write_all ws (mkdir_parents d fs))) = write_all ws (mkdir_parents d fs)"
  by (simp add: write_all_eq mkdir_parents_def map_add_twice Un_assoc)

lemma files_write_all_last:
  "p \<notin> fst ` set rest \<Longrightarrow> files (write_all (pre @ (p, c) # rest) fs) p = Some c"
  by (simp add: write_all_eq map_add_def map_of_eq_None_iff [THEN iffD2])

lemma map_add_dom_subset: "dom f \<subseteq> dom g \<Longrightarrow> (m ++ f) ++ g = m ++ g"
  by (auto simp: map_add_def fun_eq_iff split: option.splits)

lemma dom_map_of_rev: "dom (map_of (rev ws)) = set (map fst ws)"
  by (simp add: dom_map_of_conv_image_fst)

lemma overwrite:
  "map fst ws = map fst ws' \<Longrightarrow>
   write_all ws' (mkdir_parents d (write_all ws (mkdir_parents d fs))) =
   write_all ws' (mkdir_parents d fs)"
  by (simp add: write_all_eq mkdir_parents_def map_add_dom_subset dom_map_of_rev Un_assoc)

lemma dirs_write_all: "dirs (write_all ws fs) = dirs fs"
  by (simp add: write_all_eq)

lemma date_without_order [simp]:
  "get_current_date (e\<lparr>env_set_order := ord\<rparr>) = get_current_date e"
  by (simp add: get_current_date_def)

lemma additional_plan_without_order:
  "create_additional_test_plan (e\<lparr>env_set_order := ord\<rparr>) k n sc d ds =
   create_additional_test_plan e k n sc d ds"
  by (simp add: create_additional_test_plan_def split: sum.splits)

lemma additional_cases_without_order:
  "generate_additional_test_cases (e\<lparr>env_set_order := ord\<rparr>) k d ds n =
   generate_additional_test_cases e k d ds n"
  by (simp add: generate_additional_test_cases_def additional_plan_without_order)

lemma around_base: "h @ m @ B = [] @ h @ m @ B"
  by simp

lemma around_step: "t = A @ h @ m @ B \<Longrightarrow> a @ t = (a @ A) @ h @ m @ B"
  by simp

lemma plan_around_test_data:
  assumes "format_description d = Inr fd"
  shows "\<exists>A B. \<forall>ord.
     create_manual_test_plan (e\<lparr>env_set_order := ord\<rparr>) k n sc s d ds tot =
     Inr (A @ test_data_heading
            @ data_lines (extract_test_data_requirements (e\<lparr>env_set_order := ord\<rparr>)
                            (plan_steps sc) (description_text d)) @ B)"
  unfolding create_manual_test_plan_def Let_def assms sum.case date_without_order
    test_data_heading_def
  apply (rule exI, rule exI, rule allI, rule arg_cong [where f = Inr])
  apply (rule around_base | rule around_step)+
  done

lemma render_each_rel:
  "(\<And>x. x \<in> set xs \<Longrightarrow> rel_sum (=) R (f x) (g x)) \<Longrightarrow>
   rel_prod (list_all2 R) (=) (render_each f xs) (render_each g xs)"
proof (induction xs)
  case Nil
  show ?case by simp
next
  case (Cons x xs)
  have x: "rel_sum (=) R (f x) (g x)" using Cons.prems by simp
  have xs: "rel_prod (list_all2 R) (=) (render_each f xs) (render_each g xs)"
    using Cons by simp
  show ?case
  proof (cases "f x")
    case (Inl err)
    with x have "g x = Inl err" by (cases "g x") simp_all
    with Inl show ?thesis by simp
  next
    case (Inr y)
    with x obtain y' where "g x = Inr y'" and "R y y'" by (cases "g x") simp_all
    with Inr xs show ?thesis by (auto split: prod.splits)
  qed
qed

lemma plan_rel:
  "rel_sum (=) (\<lambda>c c'. c = c' \<or> same_but_test_data e (e\<lparr>env_set_order := ord\<rparr>) c c')
     (create_manual_test_plan e k n sc s d ds tot)
     (create_manual_test_plan (e\<lparr>env_set_order := ord\<rparr>) k n sc s d ds tot)"
proof (cases "format_description d")
  case (Inl err)
  then show ?thesis by (simp add: create_manual_test_plan_def)
next
  case (Inr fd)
  from plan_around_test_data [OF Inr, of e k n sc s ds tot]
  obtain A B where ab: "\<And>ord'.
     create_manual_test_plan (e\<lparr>env_set_order := ord'\<rparr>) k n sc s d ds tot =
     Inr (A @ test_data_heading
            @ data_lines (extract_test_data_requirements (e\<lparr>env_set_order := ord'\<rparr>)
                            (plan_steps sc) (description_text d)) @ B)"
    by blast
  from ab [of "env_set_order e"] ab [of ord] show ?thesis
    by (auto simp: same_but_test_data_def)
qed

text \<open>Two writes of the same file whose texts are the same but for the test data.\<close>

lemma manual_plans_rel:
  "rel_prod
     (list_all2 (\<lambda>w w'. fst w = fst w' \<and>
        (snd w = snd w' \<or>
         (\<exists>n. fst w = output_dir @ [analysis_ticket_key a @ ''_Test'' @ show_nat n @ ''.txt'']) \<and>
         same_but_test_data e (e\<lparr>env_set_order := ord\<rparr>) (snd w) (snd w'))))
     (=)
     (generate_manual_test_plans e t a output_dir)
     (generate_manual_test_plans (e\<lparr>env_set_order := ord\<rparr>) t a output_dir)"
proof -
  let ?R = "\<lambda>w w'. fst w = fst w' \<and>
        (snd w = snd w' \<or>
         (\<exists>n. fst w = output_dir @ [analysis_ticket_key a @ ''_Test'' @ show_nat n @ ''.txt'']) \<and>
         same_but_test_data e (e\<lparr>env_set_order := ord\<rparr>) (snd w) (snd w'))"
  let ?d = "get_default (fields_description t) (Text [])"
  let ?f = "\<lambda>e (idx, sc).
     case create_manual_test_plan e (analysis_ticket_key a) idx sc (analysis_summary a) ?d
            (analysis_discussion_summary a) (length (analysis_test_scenarios a)) of
       Inl err \<Rightarrow> Inl err
     | Inr test_plan_content \<Rightarrow>
         Inr (output_dir @ [analysis_ticket_key a @ ''_Test'' @ show_nat idx @ ''.txt''],
              test_plan_content)"
  have "rel_sum (=) ?R (?f e x) (?f (e\<lparr>env_set_order := ord\<rparr>) x)" for x
  proof (cases x)
    case (Pair idx sc)
    from plan_rel [of e ord "analysis_ticket_key a" idx sc "analysis_summary a" ?d
        "analysis_discussion_summary a" "length (analysis_test_scenarios a)"]
    show ?thesis
      unfolding Pair
      by (cases "create_manual_test_plan e (analysis_ticket_key a) idx sc (analysis_summary a)
            ?d (analysis_discussion_summary a) (length (analysis_test_scenarios a))";
          cases "create_manual_test_plan (e\<lparr>env_set_order := ord\<rparr>) (analysis_ticket_key a) idx sc
            (analysis_summary a) ?d (analysis_discussion_summary a)
            (length (analysis_test_scenarios a))") auto
  qed
  then have "rel_prod (list_all2 ?R) (=)
      (render_each (?f e) (enumerate 1 (analysis_test_scenarios a)))
      (render_each (?f (e\<lparr>env_set_order := ord\<rparr>)) (enumerate 1 (analysis_test_scenarios a)))"
    by (intro render_each_rel)
  moreover have "list_all2 ?R ws ws" for ws
    by (simp add: list_all2_refl)
  ultimately show ?thesis
    unfolding generate_manual_test_plans_def Let_def additional_cases_without_order
    by (auto split: prod.splits option.splits sum.splits intro!: list_all2_appendI)
qed

lemma same_paths:
  "list_all2 (\<lambda>w w'. fst w = fst w' \<and> S w w') ws ws' \<Longrightarrow> map fst ws = map fst ws'"
  by (induction rule: list_all2_induct) simp_all

lemma map_of_rev_rel:
  "list_all2 (\<lambda>w w'. fst w = fst w' \<and> (snd w = snd w' \<or> P (fst w) (snd w) (snd w'))) ws ws' \<Longrightarrow>
   rel_option (\<lambda>c c'. c = c' \<or> P p c c') (map_of (rev ws) p) (map_of (rev ws') p)"
proof (induction rule: list_all2_induct)
  case Nil
  show ?case by simp
next
  case (Cons w ws w' ws')
  show ?case
  proof (cases "map_of (rev ws) p")
    case None
    with Cons.IH have "map_of (rev ws') p = None" by (cases "map_of (rev ws') p") simp_all
    with None Cons.hyps(1) show ?thesis
      by (cases w; cases w') (auto simp: map_add_def)
  next
    case (Some c)
    with Cons.IH obtain c' where "map_of (rev ws') p = Some c'" and "c = c' \<or> P p c c'"
      by (cases "map_of (rev ws') p") simp_all
    with Some show ?thesis by (simp add: map_add_def)
  qed
qed

lemma files_rel:
  assumes "list_all2 (\<lambda>w w'. fst w = fst w' \<and> (snd w = snd w' \<or> P (fst w) (snd w) (snd w'))) ws ws'"
  shows "files (write_all ws' fs) p = files (write_all ws fs) p \<or>
     (\<exists>c c'. files (write_all ws fs) p = Some c \<and> files (write_all ws' fs) p = Some c' \<and>
        P p c c')"
  using map_of_rev_rel [OF assms, of p]
  by (cases "map_of (rev ws) p"; cases "map_of (rev ws') p")
    (auto simp: write_all_eq map_add_def)

text \<open>
  Claim C2, amended. \<open>generate_tests\<close> is run twice with the same ticket, language and
  output path, the second run on the files the first one left, on the same date, and with
  whatever order the second run lists its sets in. Both runs return the same result, the
  second run creates no further directory, and every file has the same content after both
  runs, except possibly a scenario plan \<open>{ticket_key}_Test{n}.txt\<close>, whose two texts are
  then the same but for the lines under \<open>TEST DATA REQUIREMENTS\<close>.
\<close>

theorem C2:
  "let e' = e\<lparr>env_set_order := other_order\<rparr>;
       first_run = generate_tests e t language output_path fs;
       second_run = generate_tests e' t language output_path (snd first_run)
   in fst second_run = fst first_run \<and>
      dirs (snd second_run) = dirs (snd first_run) \<and>
      (\<forall>p. files (snd second_run) p = files (snd first_run) p \<or>
           (\<exists>n c c'.
              p = [path_or output_path (env_output_dir e), key t,
                   key t @ ''_Test'' @ show_nat n @ ''.txt''] \<and>
              files (snd first_run) p = Some c \<and> files (snd second_run) p = Some c' \<and>
              same_but_test_data e e' c c'))"
proof (cases "analyze_requirements t")
  case (Inl err)
  then show ?thesis by (simp add: generate_tests_def)
next
  case (Inr a)
  let ?e' = "e\<lparr>env_set_order := other_order\<rparr>"
  let ?out = "[path_or output_path (env_output_dir e), key t]"
  let ?W = "[(?out @ [key t @ ''.feature''], generate_feature_file a)]
      @ (case language of
           Java \<Rightarrow> generate_java_tests a ?out
         | Python \<Rightarrow> generate_python_tests a ?out)
      @ [(?out @ [''testng.xml''], generate_testng_xml a)]
      @ [(?out @ [''README.md''], generate_readme a language)]"
  let ?P = "\<lambda>p c c'. (\<exists>n. p = ?out @ [key t @ ''_Test'' @ show_nat n @ ''.txt'']) \<and>
      same_but_test_data e ?e' c c'"
  let ?R = "\<lambda>w w'. fst w = fst w' \<and> (snd w = snd w' \<or> ?P (fst w) (snd w) (snd w'))"
  have k: "analysis_ticket_key a = key t"
    using Inr by (auto simp: analyze_requirements_def Let_def split: sum.splits)
  obtain plans raised where m: "generate_manual_test_plans e t a ?out = (plans, raised)"
    by (cases "generate_manual_test_plans e t a ?out")
  obtain plans' raised' where m': "generate_manual_test_plans ?e' t a ?out = (plans', raised')"
    by (cases "generate_manual_test_plans ?e' t a ?out")
  from manual_plans_rel [of ?out a e other_order t] m m'
  have r: "raised' = raised" and "list_all2 ?R plans plans'"
    by (simp_all add: k)
  then have rel: "list_all2 ?R (?W @ plans) (?W @ plans')"
    by (intro list_all2_appendI) (simp_all add: list_all2_refl)
  then have paths: "map fst (?W @ plans) = map fst (?W @ plans')"
    by (rule same_paths)
  then have len: "length (?W @ plans) = length (?W @ plans')"
    by (metis length_map)
  let ?fs1 = "write_all (?W @ plans) (mkdir_parents ?out fs)"
  let ?fs2 = "write_all (?W @ plans') (mkdir_parents ?out fs)"
  have run1: "generate_tests e t language output_path fs =
      (case raised of
         Some err \<Rightarrow> Inl err
       | None \<Rightarrow> Inr (Generated (map fst (?W @ plans))
           (''Generated '' @ show_nat (length (?W @ plans)) @ '' files for '' @ key t)), ?fs1)"
    by (simp add: generate_tests_def Inr m Let_def split: option.splits)
  have run2: "generate_tests ?e' t language output_path ?fs1 =
      (case raised of
         Some err \<Rightarrow> Inl err
       | None \<Rightarrow> Inr (Generated (map fst (?W @ plans))
           (''Generated '' @ show_nat (length (?W @ plans)) @ '' files for '' @ key t)), ?fs2)"
    using overwrite [OF paths, of ?out fs] paths len
    by (simp add: generate_tests_def Inr m' r Let_def split: option.splits)
  have d: "dirs ?fs2 = dirs ?fs1"
    by (simp add: dirs_write_all)
  have f: "files ?fs2 p = files ?fs1 p \<or>
     (\<exists>c c'. files ?fs1 p = Some c \<and> files ?fs2 p = Some c' \<and> ?P p c c')" for p
    using files_rel [OF rel, where fs = "mkdir_parents ?out fs" and p = p] by simp
  show ?thesis
    unfolding Let_def run1 snd_conv fst_conv run2
    using d f by (simp only: simp_thms append_Cons append_Nil) blast
qed

lemma digit_inj: "a < 10 \<Longrightarrow> b < 10 \<Longrightarrow> digit a = digit b \<Longrightarrow> a = b"
proof -
  assume a: "a < 10" and b: "b < 10" and e: "digit a = digit b"
  from e have "of_char (char_of (48 + a) :: char) = (of_char (char_of (48 + b) :: char) :: nat)"
    by (simp add: digit_def)
  with a b show ?thesis by simp
qed

lemma show_nat_nonempty: "show_nat n \<noteq> []"
  by (subst show_nat.simps) simp

lemma show_nat_inj: "show_nat m = show_nat n \<Longrightarrow> m = n"
proof (induction m arbitrary: n rule: show_nat.induct)
  case (1 m)
  show ?case
  proof (cases "m < 10")
    case True
    then have m: "show_nat m = [digit m]" by (subst show_nat.simps) simp
    show ?thesis
    proof (cases "n < 10")
      case True
      then have "show_nat n = [digit n]" by (subst show_nat.simps) simp
      with m "1.prems" \<open>m < 10\<close> True show ?thesis by (auto dest: digit_inj)
    next
      case False
      then have "show_nat n = show_nat (n div 10) @ [digit (n mod 10)]"
        by (subst show_nat.simps) simp
      with m "1.prems" show_nat_nonempty [of "n div 10"] show ?thesis by simp
    qed
  next
    case False
    then have m: "show_nat m = show_nat (m div 10) @ [digit (m mod 10)]"
      by (subst show_nat.simps) simp
    show ?thesis
    proof (cases "n < 10")
      case True
      then have "show_nat n = [digit n]" by (subst show_nat.simps) simp
      with m "1.prems" show_nat_nonempty [of "m div 10"] show ?thesis by simp
    next
      case n: False
      then have "show_nat n = show_nat (n div 10) @ [digit (n mod 10)]"
        by (subst show_nat.simps) simp
      with m "1.prems" have "show_nat (m div 10) = show_nat (n div 10)"
        and d: "digit (m mod 10) = digit (n mod 10)" by simp_all
      with "1.IH" False have "m div 10 = n div 10" by blast
      moreover from d have "m mod 10 = n mod 10"
        using digit_inj [of "m mod 10" "n mod 10"] by simp
      ultimately show ?thesis by (metis div_mult_mod_eq)
    qed
  qed
qed

lemma fst_enumerate_map:
  "map fst (map (\<lambda>(i, x). (f i, g i x)) (enumerate n xs)) = map f [n..<n + length xs]"
proof -
  have "map fst (map (\<lambda>(i, x). (f i, g i x)) (enumerate n xs)) = map (f \<circ> fst) (enumerate n xs)"
    by (simp add: case_prod_unfold comp_def)
  also have "\<dots> = map f (map fst (enumerate n xs))"
    by (simp only: map_map)
  also have "\<dots> = map f [n..<n + length xs]"
    by (simp only: map_fst_enumerate)
  finally show ?thesis .
qed

lemma length_additional: "length additional_scenarios = 8"
  by (simp add: additional_scenarios_def)


lemma render_each_ok:
  "(\<And>x. x \<in> set xs \<Longrightarrow> \<exists>y. f x = Inr y) \<Longrightarrow> render_each f xs = (map (projr \<circ> f) xs, None)"
proof (induction xs)
  case Nil
  show ?case by simp
next
  case (Cons x xs)
  from Cons.prems [of x] obtain y where "f x = Inr y" by auto
  moreover from Cons have "render_each f xs = (map (projr \<circ> f) xs, None)" by simp
  ultimately show ?case by simp
qed

lemma manual_plan_ok:
  "format_description d = Inr fd \<Longrightarrow> \<exists>c. create_manual_test_plan e k n sc s d ds tot = Inr c"
  by (simp add: create_manual_test_plan_def Let_def)

lemma additional_plan_ok:
  "format_description d = Inr fd \<Longrightarrow> \<exists>c. create_additional_test_plan e k n sc d ds = Inr c"
  by (simp add: create_additional_test_plan_def)

lemma additional_cases_ok:
  assumes "format_description d = Inr fd"
  shows "\<exists>cs. generate_additional_test_cases e k d ds n = Inr cs \<and> length cs = 8"
proof -
  have "render_each (\<lambda>(i, sc). create_additional_test_plan e k i sc d ds)
          (enumerate n additional_scenarios) =
        (map (projr \<circ> (\<lambda>(i, sc). create_additional_test_plan e k i sc d ds))
          (enumerate n additional_scenarios), None)"
    by (rule render_each_ok) (auto simp: additional_plan_ok [OF assms])
  then show ?thesis
    by (simp add: generate_additional_test_cases_def length_additional)
qed

lemma manual_plans_run:
  assumes "format_description (get_default (fields_description t) (Text [])) = Inr fd"
  shows "\<exists>cs. length cs = 8 \<and>
     generate_manual_test_plans e t a output_dir =
       (map (\<lambda>(idx, sc).
               (output_dir @ [analysis_ticket_key a @ ''_Test'' @ show_nat idx @ ''.txt''],
                projr (create_manual_test_plan e (analysis_ticket_key a) idx sc
                  (analysis_summary a) (get_default (fields_description t) (Text []))
                  (analysis_discussion_summary a) (length (analysis_test_scenarios a)))))
          (enumerate 1 (analysis_test_scenarios a))
        @ map (\<lambda>(idx, c).
                 (output_dir @ [analysis_ticket_key a @ ''_Test'' @ show_nat idx @ ''.txt''], c))
            (enumerate (length (analysis_test_scenarios a) + 1) cs),
        None)"
proof -
  let ?N = "length (analysis_test_scenarios a)"
  let ?d = "get_default (fields_description t) (Text [])"
  let ?path = "\<lambda>n. output_dir @ [analysis_ticket_key a @ ''_Test'' @ show_nat n @ ''.txt'']"
  let ?plan = "\<lambda>idx sc. create_manual_test_plan e (analysis_ticket_key a) idx sc
     (analysis_summary a) ?d (analysis_discussion_summary a) ?N"
  let ?f = "\<lambda>(idx, sc). case ?plan idx sc of
       Inl err \<Rightarrow> Inl err
     | Inr test_plan_content \<Rightarrow> Inr (?path idx, test_plan_content)"
  obtain cs where cs: "generate_additional_test_cases e (analysis_ticket_key a) ?d
      (analysis_discussion_summary a) (?N + 1) = Inr cs" and len: "length cs = 8"
    using additional_cases_ok [OF assms] by blast
  have ok: "\<exists>y. ?f x = Inr y" for x
    using manual_plan_ok [OF assms, of e "analysis_ticket_key a" "fst x" "snd x"
        "analysis_summary a" "analysis_discussion_summary a" ?N]
    by (cases x) auto
  have r: "render_each ?f (enumerate 1 (analysis_test_scenarios a)) =
      (map (projr \<circ> ?f) (enumerate 1 (analysis_test_scenarios a)), None)"
    by (rule render_each_ok) (rule ok)
  have mp: "map (projr \<circ> ?f) xs = map (\<lambda>(idx, sc). (?path idx, projr (?plan idx sc))) xs" for xs
  proof (rule map_cong [OF refl])
    fix x :: "nat \<times> test_scenario"
    obtain idx sc where x: "x = (idx, sc)" by (cases x)
    from manual_plan_ok [OF assms, of e "analysis_ticket_key a" idx sc
        "analysis_summary a" "analysis_discussion_summary a" ?N]
    obtain c where "?plan idx sc = Inr c" by blast
    then show "(projr \<circ> ?f) x = (case x of (idx, sc) \<Rightarrow> (?path idx, projr (?plan idx sc)))"
      unfolding x by simp
  qed
  have "generate_manual_test_plans e t a output_dir =
      (map (\<lambda>(idx, sc). (?path idx, projr (?plan idx sc))) (enumerate 1 (analysis_test_scenarios a))
       @ map (\<lambda>(idx, c). (?path idx, c)) (enumerate (?N + 1) cs), None)"
    unfolding generate_manual_test_plans_def Let_def r cs mp
    by simp
  with len show ?thesis by blast
qed

text \<open>
  With a description that \<open>_format_description\<close> accepts (a text, or a value that counts as
  false), nothing is raised and the plans of the \<open>N\<close> scenarios and the 8 supplementary plans
  are written to \<open>{ticket_key}_Test1.txt\<close>, \<open>\<dots>\<close>, \<open>{ticket_key}_Test(N+8).txt\<close>, in
  this order, all different.
\<close>

lemma manual_plan_paths:
  assumes "format_description (get_default (fields_description t) (Text [])) = Inr fd"
  shows "snd (generate_manual_test_plans e t a output_dir) = None \<and>
     map fst (fst (generate_manual_test_plans e t a output_dir)) =
       map (\<lambda>n. output_dir @ [analysis_ticket_key a @ ''_Test'' @ show_nat n @ ''.txt''])
         [1..<length (analysis_test_scenarios a) + 9] \<and>
     length (fst (generate_manual_test_plans e t a output_dir)) =
       length (analysis_test_scenarios a) + 8 \<and>
     distinct (map fst (fst (generate_manual_test_plans e t a output_dir)))"
proof -
  let ?N = "length (analysis_test_scenarios a)"
  let ?path = "\<lambda>n. output_dir @ [analysis_ticket_key a @ ''_Test'' @ show_nat n @ ''.txt'']"
  let ?plan = "\<lambda>idx sc. create_manual_test_plan e (analysis_ticket_key a) idx sc
     (analysis_summary a) (get_default (fields_description t) (Text []))
     (analysis_discussion_summary a) ?N"
  from manual_plans_run [OF assms, of e a output_dir]
  obtain cs where len: "length cs = 8" and run: "generate_manual_test_plans e t a output_dir =
      (map (\<lambda>(idx, sc). (?path idx, projr (?plan idx sc))) (enumerate 1 (analysis_test_scenarios a))
       @ map (\<lambda>(idx, c). (?path idx, c)) (enumerate (?N + 1) cs), None)"
    by blast
  have split: "[1..<?N + 9] = [1..<1 + ?N] @ [?N + 1..<?N + 1 + 8]"
    using upt_add_eq_append [of 1 "?N + 1" 8] by (simp add: add.commute)
  have paths: "map fst (fst (generate_manual_test_plans e t a output_dir)) =
      map ?path [1..<?N + 9]"
    unfolding run fst_conv map_append split
    by (simp only: fst_enumerate_map [where g = "\<lambda>i x. x", simplified] fst_enumerate_map len)
  have "inj ?path"
    by (auto simp: inj_on_def dest: show_nat_inj)
  then have "distinct (map ?path [1..<?N + 9])"
    by (simp add: distinct_map inj_on_def)
  with paths have "distinct (map fst (fst (generate_manual_test_plans e t a output_dir)))"
    by simp
  moreover have "length (fst (generate_manual_test_plans e t a output_dir)) = ?N + 8"
    by (simp add: run len)
  moreover have "snd (generate_manual_test_plans e t a output_dir) = None"
    by (simp add: run)
  ultimately show ?thesis using paths by blast
qed

lemma adf_raises:
  "format_description (Object (k # ks) r) =
   Inl (AttributeError ([CHR 0x27] @ ''dict' object has no attribute 'replace'' @ [CHR 0x27]))"
  by (simp add: format_description_def)

lemma adf_analysis:
  "\<exists>a. analyze_requirements adf_ticket = Inr a"
  by (simp add: analyze_requirements_def adf_ticket_def get_default_def Let_def)

lemma adf_fetch: "get_ticket_with_discussions jira_adf ''PROJ-1'' = Inr adf_ticket"
  by (simp add: get_ticket_with_discussions_def jira_adf_def adf_ticket_def
      summarize_discussions_def)

text \<open>
  Claim C5 fails for a ticket of the REST API version 3, whose description is a document
  object and not a string: \<open>_format_description\<close> calls \<open>replace\<close> on it while the first
  plan is rendered, so \<open>_generate_manual_test_plans\<close> raises \<open>AttributeError\<close> and
  has written no file, for any analysis and so for any number \<open>N\<close> of scenarios, instead of
  \<open>N + 8\<close> files. The tool operation \<open>generate_manual_test_plans\<close> has by then created the
  output directory, and leaves it empty.
\<close>

theorem C5:
  "generate_manual_test_plans e adf_ticket a output_dir =
     ([], Some (AttributeError
        ([CHR 0x27] @ ''dict' object has no attribute 'replace'' @ [CHR 0x27]))) \<and>
   fst (mcp_generate_manual_test_plans (example_env 1) jira_adf ''PROJ-1'' None empty_fs) =
     Inl (AttributeError ([CHR 0x27] @ ''dict' object has no attribute 'replace'' @ [CHR 0x27])) \<and>
   files (snd (mcp_generate_manual_test_plans (example_env 1) jira_adf ''PROJ-1'' None empty_fs)) =
     Map.empty"
proof -
  have d: "get_default (fields_description adf_ticket) (Text []) =
      Object [''type'', ''version'', ''content''] ''{'type': 'doc', 'version': 1, 'content': []}''"
    by (simp add: adf_ticket_def get_default_def)
  have plan: "create_manual_test_plan e k n sc s
      (Object [''type'', ''version'', ''content''] ''{'type': 'doc', 'version': 1, 'content': []}'')
      ds tot =
      Inl (AttributeError ([CHR 0x27] @ ''dict' object has no attribute 'replace'' @ [CHR 0x27]))"
    for e k n sc s ds tot
    by (simp add: create_manual_test_plan_def Let_def adf_raises)
  have add: "generate_additional_test_cases e k
      (Object [''type'', ''version'', ''content''] ''{'type': 'doc', 'version': 1, 'content': []}'')
      ds n =
      Inl (AttributeError ([CHR 0x27] @ ''dict' object has no attribute 'replace'' @ [CHR 0x27]))"
    for e k ds n
    by (simp add: generate_additional_test_cases_def additional_scenarios_def
        create_additional_test_plan_def adf_raises)
  have m: "generate_manual_test_plans e adf_ticket a output_dir =
     ([], Some (AttributeError
        ([CHR 0x27] @ ''dict' object has no attribute 'replace'' @ [CHR 0x27])))"
    for e a output_dir
    unfolding generate_manual_test_plans_def Let_def d
    by (cases "analysis_test_scenarios a") (simp_all add: plan add)
  obtain a0 where a0: "analyze_requirements adf_ticket = Inr a0"
    using adf_analysis by blast
  have "mcp_generate_manual_test_plans (example_env 1) jira_adf ''PROJ-1'' None empty_fs =
      (Inl (AttributeError ([CHR 0x27] @ ''dict' object has no attribute 'replace'' @ [CHR 0x27])),
       write_all [] (mkdir_parents [path_or None (env_output_dir (example_env 1)), ''PROJ-1'']
         empty_fs))"
    by (simp add: mcp_generate_manual_test_plans_def adf_fetch a0 m Let_def)
  then show ?thesis
    by (simp add: m write_all_def mkdir_parents_def empty_fs_def)
qed

lemma length_take_distinct:
  "distinct ys \<Longrightarrow> set ys = set xs \<Longrightarrow> length (take n ys) = min n (card (set xs))"
  by (metis distinct_card length_take min.commute)

text \<open>
  Claim C8. For every list of steps and every description, and whatever the order in which
  the set is iterated, the list of test data requirements has at most 10 entries and no
  entry twice. Duplicates are removed before the list is cut: its entries are requirements
  that were collected, and it has 10 entries whenever 10 or more different requirements were
  collected (the number of different requirements otherwise).
\<close>

theorem C8:
  "set_order_ok (env_set_order e) \<Longrightarrow>
   length (extract_test_data_requirements e test_steps description) \<le> 10 \<and>
   distinct (extract_test_data_requirements e test_steps description) \<and>
   set (extract_test_data_requirements e test_steps description)
     \<subseteq> set (data_requirements test_steps description) \<and>
   length (extract_test_data_requirements e test_steps description) =
     min 10 (card (set (data_requirements test_steps description)))"
proof -
  assume ok: "set_order_ok (env_set_order e)"
  let ?xs = "data_requirements test_steps description"
  let ?ys = "env_set_order e ?xs"
  from ok have d: "distinct ?ys" and s: "set ?ys = set ?xs"
    by (simp_all add: set_order_ok_def)
  have "length (take 10 ?ys) \<le> 10" by simp
  moreover from d have "distinct (take 10 ?ys)" by simp
  moreover from s have "set (take 10 ?ys) \<subseteq> set ?xs"
    using set_take_subset [of 10 ?ys] by simp
  moreover from d s have "length (take 10 ?ys) = min 10 (card (set ?xs))"
    by (rule length_take_distinct)
  ultimately show ?thesis by (simp only: extract_test_data_requirements_def)
qed

lemma example_requirements:
  "length (data_requirements (plan_steps example_scenario)
     ''Email, username, password, phone number and postal code'') = 15 \<and>
   extract_test_data_requirements (example_env 1) (plan_steps example_scenario)
     ''Email, username, password, phone number and postal code'' =
   [''Valid user credentials for test execution'',
    ''Test environment access configuration'',
    ''Sample data matching requirements specifications'',
    ''Valid test email data'', ''Valid test username data'',
    ''Valid test password data'', ''Valid test name data'',
    ''Valid test phone data'', ''Valid test number data'',
    ''Valid test code data'']"
  by code_simp

theorem C8_witness:
  "set_order_ok (env_set_order (example_env 1)) \<and>
   length (data_requirements (plan_steps example_scenario)
     ''Email, username, password, phone number and postal code'') = 15 \<and>
   length (extract_test_data_requirements (example_env 1) (plan_steps example_scenario)
     ''Email, username, password, phone number and postal code'') = 10 \<and>
   distinct (extract_test_data_requirements (example_env 1) (plan_steps example_scenario)
     ''Email, username, password, phone number and postal code'')"
  using C8 [of "example_env 1" "plan_steps example_scenario"
      "''Email, username, password, phone number and postal code''"]
    example_requirements
  by (simp add: example_env_def set_order_ok_def)


lemma show_nat_1: "show_nat 1 = ''1''"
  by code_simp

lemma example_dates:
  "get_current_date (example_env 1) = ''January 01, 2025''"
  "get_current_date (example_env 2) = ''January 02, 2025''"
  by code_simp+

lemma first_plan_written:
  assumes "analyze_requirements t = Inr a"
    and "analysis_test_scenarios a = [sc]"
    and "format_description (get_default (fields_description t) (Text [])) = Inr fd"
  shows "files (snd (generate_tests e t language output_path fs))
           [path_or output_path (env_output_dir e), key t, key t @ ''_Test1.txt''] =
         Some (projr (create_manual_test_plan e (key t) 1 sc (analysis_summary a)
                 (get_default (fields_description t) (Text []))
                 (analysis_discussion_summary a) 1))"
proof -
  let ?out = "[path_or output_path (env_output_dir e), key t]"
  let ?p = "?out @ [key t @ ''_Test'' @ show_nat 1 @ ''.txt'']"
  let ?c = "projr (create_manual_test_plan e (key t) 1 sc (analysis_summary a)
     (get_default (fields_description t) (Text [])) (analysis_discussion_summary a) 1)"
  have k: "analysis_ticket_key a = key t"
    using assms(1) by (auto simp: analyze_requirements_def Let_def split: sum.splits)
  from manual_plans_run [OF assms(3), of e a ?out]
  obtain cs where manual: "generate_manual_test_plans e t a ?out =
      ((?p, ?c) # map (\<lambda>(idx, c). (?out @ [key t @ ''_Test'' @ show_nat idx @ ''.txt''], c))
         (enumerate 2 cs), None)"
    by (auto simp: assms(2) k numeral_2_eq_2)
  let ?rest = "map (\<lambda>(idx, c). (?out @ [key t @ ''_Test'' @ show_nat idx @ ''.txt''], c))
     (enumerate 2 cs)"
  let ?pre = "[(?out @ [key t @ ''.feature''], generate_feature_file a)]
      @ (case language of
           Java \<Rightarrow> generate_java_tests a ?out
         | Python \<Rightarrow> generate_python_tests a ?out)
      @ [(?out @ [''testng.xml''], generate_testng_xml a)]
      @ [(?out @ [''README.md''], generate_readme a language)]"
  have run: "snd (generate_tests e t language output_path fs) =
      write_all (?pre @ (?p, ?c) # ?rest) (mkdir_parents ?out fs)"
    by (simp add: generate_tests_def assms(1) manual Let_def)
  have "?p \<notin> fst ` set ?rest"
    by (auto simp: in_set_enumerate_eq dest!: show_nat_inj)
  then have "files (write_all (?pre @ (?p, ?c) # ?rest) (mkdir_parents ?out fs)) ?p = Some ?c"
    by (rule files_write_all_last)
  moreover have "?p = [path_or output_path (env_output_dir e), key t, key t @ ''_Test1.txt'']"
    by (simp add: show_nat_1 [simplified])
  ultimately show ?thesis
    by (simp only: run)
qed

lemma no_description: "format_description (Text []) =
    Inr ''No detailed description available. Refer to ticket summary.''"
  by (simp add: format_description_def)

lemma plan_dates_differ:
  "projr (create_manual_test_plan (example_env 1) k n sc s (Text []) ds tot) \<noteq>
   projr (create_manual_test_plan (example_env 2) k n sc s (Text []) ds tot)"
  unfolding create_manual_test_plan_def Let_def lines_nl_def no_description sum.case sum.sel
  apply (simp only: list.map concat.simps append_assoc append_Cons append_Nil same_append_eq
      list.inject simp_thms example_dates)
  apply simp
  done

lemma example_orders:
  "data_lines (extract_test_data_requirements (example_env 1)
      (plan_steps (fallback_scenario ''Login'')) []) \<noteq>
   data_lines (extract_test_data_requirements ((example_env 1)\<lparr>env_set_order := reversed_order\<rparr>)
      (plan_steps (fallback_scenario ''Login'')) [])"
  by code_simp

lemma plan_orders_differ:
  "projr (create_manual_test_plan (example_env 1) k n (fallback_scenario ''Login'') s (Text [])
      ds tot) \<noteq>
   projr (create_manual_test_plan ((example_env 1)\<lparr>env_set_order := reversed_order\<rparr>) k n
      (fallback_scenario ''Login'') s (Text []) ds tot)"
proof -
  from plan_around_test_data [OF no_description, of "example_env 1" k n
      "fallback_scenario ''Login''" s ds tot]
  obtain A B where ab: "\<And>ord.
     create_manual_test_plan ((example_env 1)\<lparr>env_set_order := ord\<rparr>) k n
       (fallback_scenario ''Login'') s (Text []) ds tot =
     Inr (A @ test_data_heading
            @ data_lines (extract_test_data_requirements
                ((example_env 1)\<lparr>env_set_order := ord\<rparr>)
                (plan_steps (fallback_scenario ''Login'')) (description_text (Text []))) @ B)"
    by blast
  have e: "(example_env 1)\<lparr>env_set_order := remdups\<rparr> = example_env 1"
    by (simp add: example_env_def)
  from ab [of remdups, unfolded e] ab [of reversed_order] example_orders show ?thesis
    by simp
qed

lemma example_analysis:
  "\<exists>a. analyze_requirements example_ticket = Inr a \<and>
     analysis_test_scenarios a = [fallback_scenario ''Login''] \<and>
     analysis_summary a = ''Login'' \<and> analysis_discussion_summary a = []"
  by (simp add: analyze_requirements_def example_ticket_def get_default_def extract_fallback
      Let_def)

text \<open>
  Claim C2, as stated, fails, in two ways. Every manual test plan carries the current date
  in its \<open>CREATED DATE\<close> line: a run on 1 January 2025 and a second run on 2 January 2025,
  with the same ticket and output directory, leave different texts in
  \<open>PROJ-1_Test1.txt\<close>. And the entries under \<open>TEST DATA REQUIREMENTS\<close> are written in the
  order in which a set is listed: two runs on the same date that list the set in opposite
  orders leave different texts in \<open>PROJ-1_Test1.txt\<close> as well.
\<close>

theorem C2_counterexample:
  "files (snd (generate_tests (example_env 2) example_ticket Java None
       (snd (generate_tests (example_env 1) example_ticket Java None empty_fs))))
     [''./generated-tests'', ''PROJ-1'', ''PROJ-1_Test1.txt''] \<noteq>
   files (snd (generate_tests (example_env 1) example_ticket Java None empty_fs))
     [''./generated-tests'', ''PROJ-1'', ''PROJ-1_Test1.txt''] \<and>
   files (snd (generate_tests ((example_env 1)\<lparr>env_set_order := reversed_order\<rparr>) example_ticket
       Java None (snd (generate_tests (example_env 1) example_ticket Java None empty_fs))))
     [''./generated-tests'', ''PROJ-1'', ''PROJ-1_Test1.txt''] \<noteq>
   files (snd (generate_tests (example_env 1) example_ticket Java None empty_fs))
     [''./generated-tests'', ''PROJ-1'', ''PROJ-1_Test1.txt'']"
proof -
  obtain a where a: "analyze_requirements example_ticket = Inr a"
    and sc: "analysis_test_scenarios a = [fallback_scenario ''Login'']"
    using example_analysis by blast
  have d: "get_default (fields_description example_ticket) (Text []) = Text []"
    by (simp add: example_ticket_def get_default_def)
  have fd: "format_description (get_default (fields_description example_ticket) (Text [])) =
      Inr ''No detailed description available. Refer to ticket summary.''"
    by (simp only: d no_description)
  have p: "[path_or None (env_output_dir e), key example_ticket,
      key example_ticket @ ''_Test1.txt''] =
    [''./generated-tests'', ''PROJ-1'', ''PROJ-1_Test1.txt'']"
    if "env_output_dir e = ''./generated-tests''" for e :: env
    using that by (simp add: path_or_def example_ticket_def)
  have o: "env_output_dir (example_env n) = ''./generated-tests''"
    "env_output_dir ((example_env n)\<lparr>env_set_order := ord\<rparr>) = ''./generated-tests''" for n ord
    by (simp_all add: example_env_def)
  note w = first_plan_written [OF a sc fd, unfolded d]
  show ?thesis
    using w [of "example_env 1" Java None empty_fs]
      w [of "example_env 2" Java None
        "snd (generate_tests (example_env 1) example_ticket Java None empty_fs)"]
      w [of "(example_env 1)\<lparr>env_set_order := reversed_order\<rparr>" Java None
        "snd (generate_tests (example_env 1) example_ticket Java None empty_fs)"]
    by (simp only: p [OF o(1)] p [OF o(2)] option.inject plan_dates_differ plan_orders_differ
        plan_dates_differ [symmetric] plan_orders_differ [symmetric] simp_thms)
qed

section \<open>Properties of the tool operations\<close>

lemma null_analysis:
  "analyze_requirements null_ticket = Inl (TypeError ''object of type 'NoneType' has no len()'')"
  by (simp add: analyze_requirements_def null_ticket_def get_default_def Let_def)

lemma null_fetch: "get_ticket_with_discussions jira_null ''PROJ-1'' = Inr null_ticket"
  by (simp add: get_ticket_with_discussions_def jira_null_def null_ticket_def
      summarize_discussions_def)

text \<open>
  When the analysis succeeds, \<open>generate_gherkin_features\<close> without output path returns the
  bare file name with the feature text; and in every case the file system changes only under
  a non-empty output path.
\<close>

lemma gherkin_without_path:
  "analyze_requirements t = Inr a \<Longrightarrow>
   generate_gherkin_features t None fs =
     (Inr (Feature [key t @ ''.feature''] (generate_feature_file a)), fs)"
  by (simp add: generate_gherkin_features_def Let_def)

lemma gherkin_frame:
  "snd (generate_gherkin_features t output_path fs) \<noteq> fs \<Longrightarrow>
   \<exists>p. output_path = Some p \<and> p \<noteq> []"
  by (auto simp: generate_gherkin_features_def Let_def split: option.splits sum.splits if_splits)

text \<open>
  Claim C10 fails for a ticket without description, which the tracker sends as
  \<open>"description": null\<close>: \<open>analyze_requirements\<close> takes \<open>len\<close> of it, so
  \<open>generate_gherkin_features\<close> without output path raises \<open>TypeError\<close> and returns no
  result object; the file system is left as it was. The tool operation of the same name
  raises the same error.
\<close>

theorem C10:
  "generate_gherkin_features null_ticket None fs =
     (Inl (TypeError ''object of type 'NoneType' has no len()''), fs) \<and>
   mcp_generate_gherkin_features jira_null ''PROJ-1'' None empty_fs =
     (Inl (TypeError ''object of type 'NoneType' has no len()''), empty_fs)"
  by (simp add: generate_gherkin_features_def mcp_generate_gherkin_features_def null_analysis
      null_fetch)

text \<open>
  Claim C7, as stated, fails: the ticket is fetched before the language is looked at. With an
  unsupported language and a tracker that does not answer, \<open>generate_test_scripts\<close> raises
  the error of the fetch instead of returning a failure object.
\<close>

theorem C7_counterexample:
  "mcp_generate_test_scripts (example_env 1) jira_down ''PROJ-1'' ''go'' None empty_fs =
     (Inl (ValueError ''Error fetching ticket: connection refused''), empty_fs)"
  by (simp add: mcp_generate_test_scripts_def get_ticket_with_discussions_def jira_down_def)

text \<open>
  Claim C7, amended. For every language other than \<open>java\<close> and \<open>python\<close>,
  \<open>generate_test_scripts\<close> writes no file. It first fetches the ticket; when the fetch
  succeeds it returns the failure object whose message is \<open>Unsupported language: \<close>, the
  language and the hint, without generating anything; when the fetch raises, the error
  propagates.
\<close>

theorem C7:
  "language \<noteq> ''java'' \<and> language \<noteq> ''python'' \<longrightarrow>
   snd (mcp_generate_test_scripts e j ticket_id language output_path fs) = fs \<and>
   (\<forall>t. get_ticket_with_discussions j ticket_id = Inr t \<longrightarrow>
      fst (mcp_generate_test_scripts e j ticket_id language output_path fs) =
        Inr (Failure (''Unsupported language: '' @ language
                      @ ''. Use 'java' or 'python'' @ [CHR 0x27])) \<and>
      contains ''Unsupported language''
        (''Unsupported language: '' @ language @ ''. Use 'java' or 'python'' @ [CHR 0x27])) \<and>
   (\<forall>err. get_ticket_with_discussions j ticket_id = Inl err \<longrightarrow>
      fst (mcp_generate_test_scripts e j ticket_id language output_path fs) = Inl err)"
  by (auto simp: mcp_generate_test_scripts_def split: sum.splits)

theorem C7_witness:
  "''go'' \<noteq> ''java'' \<and> ''go'' \<noteq> ''python'' \<and>
   get_ticket_with_discussions jira_up ''PROJ-1'' = Inr example_ticket \<and>
   mcp_generate_test_scripts (example_env 1) jira_up ''PROJ-1'' ''go'' None empty_fs =
     (Inr (Failure (''Unsupported language: go. Use 'java' or 'python'' @ [CHR 0x27])), empty_fs) \<and>
   get_ticket_with_discussions jira_down ''PROJ-1'' =
     Inl (ValueError ''Error fetching ticket: connection refused'') \<and>
   fst (mcp_generate_test_scripts (example_env 1) jira_down ''PROJ-1'' ''go'' None empty_fs) =
     Inl (ValueError ''Error fetching ticket: connection refused'')"
proof -
  have up: "get_ticket_with_discussions jira_up ''PROJ-1'' = Inr example_ticket"
    by (simp add: get_ticket_with_discussions_def jira_up_def raw_ticket_def example_ticket_def
        summarize_discussions_def)
  have down: "get_ticket_with_discussions jira_down ''PROJ-1'' =
      Inl (ValueError ''Error fetching ticket: connection refused'')"
    by (simp add: get_ticket_with_discussions_def jira_down_def)
  from up down
    C7 [of "''go''" "example_env 1" jira_up "''PROJ-1''" None empty_fs]
    C7 [of "''go''" "example_env 1" jira_down "''PROJ-1''" None empty_fs]
  show ?thesis by (simp add: prod_eq_iff)
qed

end
